theory Spec2Isabelle
  imports Complex_Main
begin

section \<open>Scalars and helpers of namespace Math (Math.h, MathUtils.h)\<close>

text \<open>
  The engine computes with \<^verbatim>\<open>f32\<close>.  Throughout this development an \<^verbatim>\<open>f32\<close> value is
  read as the real number it denotes and the operations \<^verbatim>\<open>+ - * /\<close>, \<^verbatim>\<open>std::sqrt\<close>,
  \<^verbatim>\<open>std::sin\<close>, \<^verbatim>\<open>std::cos\<close>, \<^verbatim>\<open>std::tan\<close>, \<^verbatim>\<open>std::acos\<close> as the exact real operations:
  rounding, overflow and the non-finite values are outside the model.  Control flow,
  thresholds and formulas are those of the source.
\<close>

definition PI :: real where
  "PI = 3.14159265358979323846"

definition DEG2RAD :: real where
  "DEG2RAD = PI / 180"

definition EPSILON :: real where
  "EPSILON = 1 / 1000000"

definition Clamp :: "real \<Rightarrow> real \<Rightarrow> real \<Rightarrow> real" where
  "Clamp v lo hi = (if v < lo then lo else if v > hi then hi else v)"

definition Lerp :: "real \<Rightarrow> real \<Rightarrow> real \<Rightarrow> real" where
  "Lerp a b t = a + t * (b - a)"

definition ToRadians :: "real \<Rightarrow> real" where
  "ToRadians degrees = degrees * DEG2RAD"

definition NearZero :: "real \<Rightarrow> real \<Rightarrow> bool" where
  "NearZero v eps = (\<bar>v\<bar> \<le> eps)"

definition Abs :: "real \<Rightarrow> real" where
  "Abs v = (if v < 0 then - v else v)"

definition Approximately :: "real \<Rightarrow> real \<Rightarrow> real \<Rightarrow> bool" where
  "Approximately a b eps = (Abs (a - b) \<le> eps)"


section \<open>Vector3 and Vector4 (Vector3.h, Vector4.h)\<close>

datatype Vector3 = Vector3 (vx: real) (vy: real) (vz: real)

definition Vector3_Zero :: Vector3 where
  "Vector3_Zero = Vector3 0 0 0"

definition sub3 :: "Vector3 \<Rightarrow> Vector3 \<Rightarrow> Vector3" where
  "sub3 a b = Vector3 (vx a - vx b) (vy a - vy b) (vz a - vz b)"

definition add3 :: "Vector3 \<Rightarrow> Vector3 \<Rightarrow> Vector3" where
  "add3 a b = Vector3 (vx a + vx b) (vy a + vy b) (vz a + vz b)"

definition div3 :: "Vector3 \<Rightarrow> real \<Rightarrow> Vector3" where
  "div3 a s = Vector3 (vx a / s) (vy a / s) (vz a / s)"

definition LengthSquared3 :: "Vector3 \<Rightarrow> real" where
  "LengthSquared3 v = vx v * vx v + vy v * vy v + vz v * vz v"

definition Length3 :: "Vector3 \<Rightarrow> real" where
  "Length3 v = sqrt (LengthSquared3 v)"

text \<open>\<^verbatim>\<open>Normalize\<close> returns early, leaving the vector as it is, when its length is near zero.\<close>

definition Normalize3 :: "Vector3 \<Rightarrow> Vector3" where
  "Normalize3 v = (let len = Length3 v in if NearZero len EPSILON then v else div3 v len)"

definition Normalized3 :: "Vector3 \<Rightarrow> Vector3" where
  "Normalized3 v = Normalize3 v"

text \<open>\<^verbatim>\<open>operator==\<close> of Vector3 compares component-wise up to \<^const>\<open>EPSILON\<close>.\<close>

definition eq3 :: "Vector3 \<Rightarrow> Vector3 \<Rightarrow> bool" where
  "eq3 a b \<longleftrightarrow> Approximately (vx a) (vx b) EPSILON \<and> Approximately (vy a) (vy b) EPSILON
     \<and> Approximately (vz a) (vz b) EPSILON"

definition Dot3 :: "Vector3 \<Rightarrow> Vector3 \<Rightarrow> real" where
  "Dot3 a b = vx a * vx b + vy a * vy b + vz a * vz b"

definition Cross :: "Vector3 \<Rightarrow> Vector3 \<Rightarrow> Vector3" where
  "Cross a b = Vector3 (vy a * vz b - vz a * vy b) (vz a * vx b - vx a * vz b)
     (vx a * vy b - vy a * vx b)"

definition Lerp3 :: "Vector3 \<Rightarrow> Vector3 \<Rightarrow> real \<Rightarrow> Vector3" where
  "Lerp3 a b t = Vector3 (Lerp (vx a) (vx b) t) (Lerp (vy a) (vy b) t) (Lerp (vz a) (vz b) t)"

datatype Vector4 = Vector4 (x4: real) (y4: real) (z4: real) (w4: real)

definition Vector4_of :: "Vector3 \<Rightarrow> real \<Rightarrow> Vector4" where
  "Vector4_of v w = Vector4 (vx v) (vy v) (vz v) w"

definition Homogenized :: "Vector4 \<Rightarrow> Vector3" where
  "Homogenized v =
     (if NearZero (w4 v) EPSILON then Vector3 (x4 v) (y4 v) (z4 v)
      else let invW = 1 / w4 v in Vector3 (x4 v * invW) (y4 v * invW) (z4 v * invW))"


section \<open>Matrix4 (Matrix4.h)\<close>

text \<open>
  The sixteen floats of the union, in the order of the flat array \<^verbatim>\<open>m[16]\<close>; the
  constructor takes them in that order, as the sixteen-argument constructor of the source.
  \<^verbatim>\<open>mm[i][j]\<close> views the same storage as \<^verbatim>\<open>m[4 * i + j]\<close>.  Every index used by the
  source is a constant below 16 or a loop counter below 4.
\<close>

datatype Matrix4 = Matrix4 real real real real real real real real
                           real real real real real real real real

fun cells :: "Matrix4 \<Rightarrow> real list" where
  "cells (Matrix4 a0 a1 a2 a3 a4 a5 a6 a7 a8 a9 a10 a11 a12 a13 a14 a15) =
     [a0, a1, a2, a3, a4, a5, a6, a7, a8, a9, a10, a11, a12, a13, a14, a15]"

definition of_cells :: "real list \<Rightarrow> Matrix4" where
  "of_cells xs = Matrix4 (xs ! 0) (xs ! 1) (xs ! 2) (xs ! 3) (xs ! 4) (xs ! 5) (xs ! 6) (xs ! 7)
     (xs ! 8) (xs ! 9) (xs ! 10) (xs ! 11) (xs ! 12) (xs ! 13) (xs ! 14) (xs ! 15)"

definition m :: "Matrix4 \<Rightarrow> nat \<Rightarrow> real" where
  "m M i = cells M ! i"

definition set_m :: "Matrix4 \<Rightarrow> nat \<Rightarrow> real \<Rightarrow> Matrix4" where
  "set_m M i v = of_cells ((cells M)[i := v])"

definition mm :: "Matrix4 \<Rightarrow> nat \<Rightarrow> nat \<Rightarrow> real" where
  "mm M i j = m M (4 * i + j)"

definition set_mm :: "Matrix4 \<Rightarrow> nat \<Rightarrow> nat \<Rightarrow> real \<Rightarrow> Matrix4" where
  "set_mm M i j v = set_m M (4 * i + j) v"

definition Identity :: Matrix4 where
  "Identity = Matrix4 1 0 0 0  0 1 0 0  0 0 1 0  0 0 0 1"

text \<open>
  \<^verbatim>\<open>operator*\<close>: the three nested loops of the source, the result starting as the
  identity (the default constructor) and each cell being zeroed before the products
  are accumulated into it.
\<close>

definition mul_cell :: "Matrix4 \<Rightarrow> Matrix4 \<Rightarrow> nat \<Rightarrow> nat \<Rightarrow> Matrix4 \<Rightarrow> Matrix4" where
  "mul_cell A B i j R =
     fold (\<lambda>k R. set_mm R i j (mm R i j + mm A i k * mm B k j)) [0..<4] (set_mm R i j 0)"

definition mul4 :: "Matrix4 \<Rightarrow> Matrix4 \<Rightarrow> Matrix4" where
  "mul4 A B = fold (\<lambda>i R. fold (\<lambda>j R. mul_cell A B i j R) [0..<4] R) [0..<4] Identity"

definition mulv :: "Matrix4 \<Rightarrow> Vector4 \<Rightarrow> Vector4" where
  "mulv M v = Vector4
     (m M 0 * x4 v + m M 1 * y4 v + m M 2 * z4 v + m M 3 * w4 v)
     (m M 4 * x4 v + m M 5 * y4 v + m M 6 * z4 v + m M 7 * w4 v)
     (m M 8 * x4 v + m M 9 * y4 v + m M 10 * z4 v + m M 11 * w4 v)
     (m M 12 * x4 v + m M 13 * y4 v + m M 14 * z4 v + m M 15 * w4 v)"

definition TransformPoint :: "Matrix4 \<Rightarrow> Vector3 \<Rightarrow> Vector3" where
  "TransformPoint M p = Homogenized (mulv M (Vector4_of p 1))"

definition Determinant :: "Matrix4 \<Rightarrow> real" where
  "Determinant M =
     0
     + m M 0 * (m M 5 * (m M 10 * m M 15 - m M 11 * m M 14) -
                m M 6 * (m M 9 * m M 15 - m M 11 * m M 13) +
                m M 7 * (m M 9 * m M 14 - m M 10 * m M 13))
     - m M 1 * (m M 4 * (m M 10 * m M 15 - m M 11 * m M 14) -
                m M 6 * (m M 8 * m M 15 - m M 11 * m M 12) +
                m M 7 * (m M 8 * m M 14 - m M 10 * m M 12))
     + m M 2 * (m M 4 * (m M 9 * m M 15 - m M 11 * m M 13) -
                m M 5 * (m M 8 * m M 15 - m M 11 * m M 12) +
                m M 7 * (m M 8 * m M 13 - m M 9 * m M 12))
     - m M 3 * (m M 4 * (m M 9 * m M 14 - m M 10 * m M 13) -
                m M 5 * (m M 8 * m M 14 - m M 10 * m M 12) +
                m M 6 * (m M 8 * m M 13 - m M 9 * m M 12))"

text \<open>The sixteen cells \<^verbatim>\<open>Inverted\<close> assigns when the determinant is not near zero.\<close>

definition adjugate_scaled :: "Matrix4 \<Rightarrow> real \<Rightarrow> Matrix4" where
  "adjugate_scaled M invDet = Matrix4
     (invDet * (m M 5 * (m M 10 * m M 15 - m M 11 * m M 14) -
                m M 6 * (m M 9 * m M 15 - m M 11 * m M 13) +
                m M 7 * (m M 9 * m M 14 - m M 10 * m M 13)))
     (- invDet * (m M 1 * (m M 10 * m M 15 - m M 11 * m M 14) -
                  m M 2 * (m M 9 * m M 15 - m M 11 * m M 13) +
                  m M 3 * (m M 9 * m M 14 - m M 10 * m M 13)))
     (invDet * (m M 1 * (m M 6 * m M 15 - m M 7 * m M 14) -
                m M 2 * (m M 5 * m M 15 - m M 7 * m M 13) +
                m M 3 * (m M 5 * m M 14 - m M 6 * m M 13)))
     (- invDet * (m M 1 * (m M 6 * m M 11 - m M 7 * m M 10) -
                  m M 2 * (m M 5 * m M 11 - m M 7 * m M 9) +
                  m M 3 * (m M 5 * m M 10 - m M 6 * m M 9)))
     (- invDet * (m M 4 * (m M 10 * m M 15 - m M 11 * m M 14) -
                  m M 6 * (m M 8 * m M 15 - m M 11 * m M 12) +
                  m M 7 * (m M 8 * m M 14 - m M 10 * m M 12)))
     (invDet * (m M 0 * (m M 10 * m M 15 - m M 11 * m M 14) -
                m M 2 * (m M 8 * m M 15 - m M 11 * m M 12) +
                m M 3 * (m M 8 * m M 14 - m M 10 * m M 12)))
     (- invDet * (m M 0 * (m M 6 * m M 15 - m M 7 * m M 14) -
                  m M 2 * (m M 4 * m M 15 - m M 7 * m M 12) +
                  m M 3 * (m M 4 * m M 14 - m M 6 * m M 12)))
     (invDet * (m M 0 * (m M 6 * m M 11 - m M 7 * m M 10) -
                m M 2 * (m M 4 * m M 11 - m M 7 * m M 8) +
                m M 3 * (m M 4 * m M 10 - m M 6 * m M 8)))
     (invDet * (m M 4 * (m M 9 * m M 15 - m M 11 * m M 13) -
                m M 5 * (m M 8 * m M 15 - m M 11 * m M 12) +
                m M 7 * (m M 8 * m M 13 - m M 9 * m M 12)))
     (- invDet * (m M 0 * (m M 9 * m M 15 - m M 11 * m M 13) -
                  m M 1 * (m M 8 * m M 15 - m M 11 * m M 12) +
                  m M 3 * (m M 8 * m M 13 - m M 9 * m M 12)))
     (invDet * (m M 0 * (m M 5 * m M 15 - m M 7 * m M 13) -
                m M 1 * (m M 4 * m M 15 - m M 7 * m M 12) +
                m M 3 * (m M 4 * m M 13 - m M 5 * m M 12)))
     (- invDet * (m M 0 * (m M 5 * m M 11 - m M 7 * m M 9) -
                  m M 1 * (m M 4 * m M 11 - m M 7 * m M 8) +
                  m M 3 * (m M 4 * m M 9 - m M 5 * m M 8)))
     (- invDet * (m M 4 * (m M 9 * m M 14 - m M 10 * m M 13) -
                  m M 5 * (m M 8 * m M 14 - m M 10 * m M 12) +
                  m M 6 * (m M 8 * m M 13 - m M 9 * m M 12)))
     (invDet * (m M 0 * (m M 9 * m M 14 - m M 10 * m M 13) -
                m M 1 * (m M 8 * m M 14 - m M 10 * m M 12) +
                m M 2 * (m M 8 * m M 13 - m M 9 * m M 12)))
     (- invDet * (m M 0 * (m M 5 * m M 14 - m M 6 * m M 13) -
                  m M 1 * (m M 4 * m M 14 - m M 6 * m M 12) +
                  m M 2 * (m M 4 * m M 13 - m M 5 * m M 12)))
     (invDet * (m M 0 * (m M 5 * m M 10 - m M 6 * m M 9) -
                m M 1 * (m M 4 * m M 10 - m M 6 * m M 8) +
                m M 2 * (m M 4 * m M 9 - m M 5 * m M 8)))"

definition Inverted :: "Matrix4 \<Rightarrow> Matrix4" where
  "Inverted M =
     (let det = Determinant M in
      if NearZero det EPSILON then Identity
      else adjugate_scaled M (1 / det))"


text \<open>The factory functions start from the identity and overwrite the cells they name.\<close>

definition Orthographic :: "real \<Rightarrow> real \<Rightarrow> real \<Rightarrow> real \<Rightarrow> real \<Rightarrow> real \<Rightarrow> Matrix4" where
  "Orthographic left right bottom top' near far =
     (let r = Identity;
          r = set_m r 0 (2 / (right - left));
          r = set_m r 5 (2 / (top' - bottom));
          r = set_m r 10 (- 2 / (far - near));
          r = set_m r 3 (- (right + left) / (right - left));
          r = set_m r 7 (- (top' + bottom) / (top' - bottom));
          r = set_m r 11 (- (far + near) / (far - near))
      in r)"

definition Perspective :: "real \<Rightarrow> real \<Rightarrow> real \<Rightarrow> real \<Rightarrow> Matrix4" where
  "Perspective fov aspect near far =
     (let r = Identity;
          tanHalfFov = tan (fov * 0.5);
          r = set_m r 0 (1 / (aspect * tanHalfFov));
          r = set_m r 5 (1 / tanHalfFov);
          r = set_m r 10 (- (far + near) / (far - near));
          r = set_m r 11 (- (2 * far * near) / (far - near));
          r = set_m r 14 (- 1);
          r = set_m r 15 0
      in r)"

definition LookAt :: "Vector3 \<Rightarrow> Vector3 \<Rightarrow> Vector3 \<Rightarrow> Matrix4" where
  "LookAt eye target up =
     (let z = Normalized3 (sub3 eye target);
          x = Normalized3 (Cross up z);
          y = Cross z x;
          r = Identity;
          r = set_m r 0 (vx x); r = set_m r 1 (vy x); r = set_m r 2 (vz x);
          r = set_m r 4 (vx y); r = set_m r 5 (vy y); r = set_m r 6 (vz y);
          r = set_m r 8 (vx z); r = set_m r 9 (vy z); r = set_m r 10 (vz z);
          r = set_m r 3 (- Dot3 x eye);
          r = set_m r 7 (- Dot3 y eye);
          r = set_m r 11 (- Dot3 z eye)
      in r)"


section \<open>Quaternion (Quaternion.h)\<close>

datatype Quaternion = Quaternion (qx: real) (qy: real) (qz: real) (qw: real)

definition qadd :: "Quaternion \<Rightarrow> Quaternion \<Rightarrow> Quaternion" where
  "qadd a b = Quaternion (qx a + qx b) (qy a + qy b) (qz a + qz b) (qw a + qw b)"

definition qmul :: "Quaternion \<Rightarrow> Quaternion \<Rightarrow> Quaternion" where
  "qmul a b = Quaternion
     (qw a * qx b + qx a * qw b + qy a * qz b - qz a * qy b)
     (qw a * qy b - qx a * qz b + qy a * qw b + qz a * qx b)
     (qw a * qz b + qx a * qy b - qy a * qx b + qz a * qw b)
     (qw a * qw b - qx a * qx b - qy a * qy b - qz a * qz b)"

definition qscale :: "Quaternion \<Rightarrow> real \<Rightarrow> Quaternion" where
  "qscale a s = Quaternion (qx a * s) (qy a * s) (qz a * s) (qw a * s)"

definition Conjugate :: "Quaternion \<Rightarrow> Quaternion" where
  "Conjugate a = Quaternion (- qx a) (- qy a) (- qz a) (qw a)"

definition qrotate :: "Quaternion \<Rightarrow> Vector3 \<Rightarrow> Vector3" where
  "qrotate q v =
     (let p = Quaternion (vx v) (vy v) (vz v) 0;
          r = qmul (qmul q p) (Conjugate q)
      in Vector3 (qx r) (qy r) (qz r))"

text \<open>\<^verbatim>\<open>operator==\<close> of Quaternion compares component-wise up to \<^const>\<open>EPSILON\<close>.\<close>

definition qeq :: "Quaternion \<Rightarrow> Quaternion \<Rightarrow> bool" where
  "qeq a b \<longleftrightarrow> Approximately (qx a) (qx b) EPSILON \<and> Approximately (qy a) (qy b) EPSILON
     \<and> Approximately (qz a) (qz b) EPSILON \<and> Approximately (qw a) (qw b) EPSILON"

definition qLengthSquared :: "Quaternion \<Rightarrow> real" where
  "qLengthSquared a = qx a * qx a + qy a * qy a + qz a * qz a + qw a * qw a"

definition qLength :: "Quaternion \<Rightarrow> real" where
  "qLength a = sqrt (qLengthSquared a)"

definition qNormalize :: "Quaternion \<Rightarrow> Quaternion" where
  "qNormalize a =
     (let len = qLength a in
      if len > EPSILON then
        (let invLen = 1 / len
         in Quaternion (qx a * invLen) (qy a * invLen) (qz a * invLen) (qw a * invLen))
      else a)"

definition qNormalized :: "Quaternion \<Rightarrow> Quaternion" where
  "qNormalized a = qNormalize a"

definition qDot :: "Quaternion \<Rightarrow> Quaternion \<Rightarrow> real" where
  "qDot a b = qx a * qx b + qy a * qy b + qz a * qz b + qw a * qw b"

definition qIdentity :: Quaternion where
  "qIdentity = Quaternion 0 0 0 1"

definition ToMatrix :: "Quaternion \<Rightarrow> Matrix4" where
  "ToMatrix q =
     (let r = Identity;
          xx = qx q * qx q; yy = qy q * qy q; zz = qz q * qz q;
          xy = qx q * qy q; xz = qx q * qz q; xw = qx q * qw q;
          yz = qy q * qz q; yw = qy q * qw q; zw = qz q * qw q;
          r = set_m r 0 (1 - 2 * (yy + zz));
          r = set_m r 1 (2 * (xy - zw));
          r = set_m r 2 (2 * (xz + yw));
          r = set_m r 4 (2 * (xy + zw));
          r = set_m r 5 (1 - 2 * (xx + zz));
          r = set_m r 6 (2 * (yz - xw));
          r = set_m r 8 (2 * (xz - yw));
          r = set_m r 9 (2 * (yz + xw));
          r = set_m r 10 (1 - 2 * (xx + yy))
      in r)"

definition FromAxisAngle :: "Vector3 \<Rightarrow> real \<Rightarrow> Quaternion" where
  "FromAxisAngle axis angle =
     (let halfAngle = angle * 0.5;
          s = sin halfAngle;
          n = Normalized3 axis
      in Quaternion (vx n * s) (vy n * s) (vz n * s) (cos halfAngle))"

definition qLerp :: "Quaternion \<Rightarrow> Quaternion \<Rightarrow> real \<Rightarrow> Quaternion" where
  "qLerp a b t0 =
     (let t = Clamp t0 0 1
      in qNormalized (qadd (qscale a (1 - t)) (qscale b t)))"

definition Slerp :: "Quaternion \<Rightarrow> Quaternion \<Rightarrow> real \<Rightarrow> Quaternion" where
  "Slerp a b t0 =
     (let t = Clamp t0 0 1;
          cosHalfTheta = qDot a b;
          (b2, cosHalfTheta) =
             (if cosHalfTheta < 0 then (qscale b (- 1), - cosHalfTheta) else (b, cosHalfTheta))
      in if cosHalfTheta > 0.9999 then qLerp a b2 t
         else
           (let halfTheta = arccos cosHalfTheta;
                sinHalfTheta = sqrt (1 - cosHalfTheta * cosHalfTheta)
            in if NearZero sinHalfTheta EPSILON then qLerp a b2 t
               else
                 (let ratioA = sin ((1 - t) * halfTheta) / sinHalfTheta;
                      ratioB = sin (t * halfTheta) / sinHalfTheta
                  in qNormalized (qadd (qscale a ratioA) (qscale b2 ratioB)))))"

text \<open>
  The statements of \<^verbatim>\<open>Slerp\<close> that follow the choice of sign, as a function of the
  operand \<open>b2\<close> and the cosine they work with; \<open>Slerp_eq_arc\<close> below relates the two.
\<close>

definition Slerp_arc :: "Quaternion \<Rightarrow> Quaternion \<Rightarrow> real \<Rightarrow> real \<Rightarrow> Quaternion" where
  "Slerp_arc a b2 cosHalfTheta t =
     (if cosHalfTheta > 0.9999 then qLerp a b2 t
      else
        (let halfTheta = arccos cosHalfTheta;
             sinHalfTheta = sqrt (1 - cosHalfTheta * cosHalfTheta)
         in if NearZero sinHalfTheta EPSILON then qLerp a b2 t
            else
              (let ratioA = sin ((1 - t) * halfTheta) / sinHalfTheta;
                   ratioB = sin (t * halfTheta) / sinHalfTheta
               in qNormalized (qadd (qscale a ratioA) (qscale b2 ratioB)))))"

text \<open>
  \<^verbatim>\<open>FromRotationMatrix\<close>: \<^verbatim>\<open>matrix(row, col)\<close> reads \<^verbatim>\<open>mm[row][col]\<close>.  Each branch
  assigns the four fields of the result, which is normalised on return.
\<close>

definition FromRotationMatrix :: "Matrix4 \<Rightarrow> Quaternion" where
  "FromRotationMatrix M =
     (let trace = mm M 0 0 + mm M 1 1 + mm M 2 2 in
      qNormalized
       (if trace > 0 then
          (let s = 0.5 / sqrt (trace + 1)
           in Quaternion ((mm M 2 1 - mm M 1 2) * s) ((mm M 0 2 - mm M 2 0) * s)
                ((mm M 1 0 - mm M 0 1) * s) (0.25 / s))
        else if mm M 0 0 > mm M 1 1 \<and> mm M 0 0 > mm M 2 2 then
          (let s = 2 * sqrt (1 + mm M 0 0 - mm M 1 1 - mm M 2 2)
           in Quaternion (0.25 * s) ((mm M 0 1 + mm M 1 0) / s)
                ((mm M 0 2 + mm M 2 0) / s) ((mm M 2 1 - mm M 1 2) / s))
        else if mm M 1 1 > mm M 2 2 then
          (let s = 2 * sqrt (1 + mm M 1 1 - mm M 0 0 - mm M 2 2)
           in Quaternion ((mm M 0 1 + mm M 1 0) / s) (0.25 * s)
                ((mm M 1 2 + mm M 2 1) / s) ((mm M 0 2 - mm M 2 0) / s))
        else
          (let s = 2 * sqrt (1 + mm M 2 2 - mm M 0 0 - mm M 1 1)
           in Quaternion ((mm M 0 2 + mm M 2 0) / s) ((mm M 1 2 + mm M 2 1) / s)
                (0.25 * s) ((mm M 1 0 - mm M 0 1) / s))))"


section \<open>Logging (Log.h)\<close>

text \<open>
  A log statement \<^verbatim>\<open>ENGINE_ERROR << a << b\<close> constructs a logger of that level and
  streams the parts into it.  The model records each statement issued, with its level
  and its parts in order; whether the logger prints it depends on the level configured
  with \<^verbatim>\<open>SetLevel\<close>, which is not part of this model.
\<close>

datatype Level = Trace | Debug | Info | Warn | Error | Critical

datatype log_part = Str string | Num real

type_synonym log = "(Level \<times> log_part list) list"


section \<open>Camera (Camera.h, Camera.cpp)\<close>

datatype CameraType = PerspectiveType | OrthographicType

record Camera =
  m_Type :: CameraType
  m_Position :: Vector3
  m_Rotation :: Quaternion
  m_FOV :: real
  m_Size :: real
  m_Aspect :: real
  m_Near :: real
  m_Far :: real
  m_ViewMatrix :: Matrix4
  m_ProjectionMatrix :: Matrix4

text \<open>
  The constants \<^verbatim>\<open>Vector3::Forward\<close> and \<^verbatim>\<open>Vector3::Up\<close> are declared in Vector3.h
  and defined in a file that is not part of the sources at hand; the functions that
  read them take them as the parameters \<open>fwd\<close> and \<open>upv\<close>.
\<close>

definition Recalculate :: "Vector3 \<Rightarrow> Vector3 \<Rightarrow> Camera \<Rightarrow> Camera" where
  "Recalculate fwd upv c =
     (let forward = qrotate (m_Rotation c) fwd;
          up = qrotate (m_Rotation c) upv;
          c = c\<lparr>m_ViewMatrix := LookAt (m_Position c) (add3 (m_Position c) forward) up\<rparr>
      in if m_Type c = PerspectiveType then
           c\<lparr>m_ProjectionMatrix := Perspective (m_FOV c) (m_Aspect c) (m_Near c) (m_Far c)\<rparr>
         else
           (let right = m_Size c * m_Aspect c * 0.5;
                left = - right;
                top' = m_Size c * 0.5;
                bottom = - top'
            in c\<lparr>m_ProjectionMatrix := Orthographic left right bottom top' (m_Near c) (m_Far c)\<rparr>))"

text \<open>The default constructor.\<close>

definition Camera_default :: "Vector3 \<Rightarrow> Vector3 \<Rightarrow> Camera" where
  "Camera_default fwd upv =
     Recalculate fwd upv
       \<lparr>m_Type = PerspectiveType, m_Position = Vector3_Zero, m_Rotation = qIdentity,
        m_FOV = ToRadians 60, m_Size = 5, m_Aspect = 16 / 9, m_Near = 0.1, m_Far = 1000,
        m_ViewMatrix = Identity, m_ProjectionMatrix = Identity\<rparr>"

definition SetPerspective ::
  "Vector3 \<Rightarrow> Vector3 \<Rightarrow> real \<Rightarrow> real \<Rightarrow> real \<Rightarrow> real \<Rightarrow> Camera \<times> log \<Rightarrow> Camera \<times> log" where
  "SetPerspective fwd upv fov aspect near far st =
     (case st of (c, lg) \<Rightarrow>
      if fov \<le> 0 \<or> fov \<ge> PI then
        (c, lg @ [(Error, [Str ''Invalid FOV: '', Num fov, Str '' (must be between 0 and PI)''])])
      else if aspect \<le> 0 then
        (c, lg @ [(Error, [Str ''Invalid aspect ratio: '', Num aspect, Str '' (must be > 0)''])])
      else if near \<le> 0 then
        (c, lg @ [(Error, [Str ''Invalid near plane: '', Num near, Str '' (must be > 0)''])])
      else if far \<le> near then
        (c, lg @ [(Error, [Str ''Invalid far plane: '', Num far, Str '' (must be > near: '',
                           Num near, Str '')''])])
      else
        (Recalculate fwd upv
           (c\<lparr>m_Type := PerspectiveType, m_FOV := fov, m_Aspect := aspect,
              m_Near := near, m_Far := far\<rparr>), lg))"


definition SetPosition :: "Vector3 \<Rightarrow> Vector3 \<Rightarrow> Vector3 \<Rightarrow> Camera \<Rightarrow> Camera" where
  "SetPosition fwd upv p c = Recalculate fwd upv (c\<lparr>m_Position := p\<rparr>)"


section \<open>Scene (Scene.h, Scene.cpp)\<close>

text \<open>
  A scene object carries its name, a mesh reference that may be null, a transform and
  an optional update callback.  Meshes and callbacks are opaque here.
\<close>

typedecl Mesh
typedecl UpdateCallback

record Transform =
  position :: Vector3
  rotation :: Quaternion
  scale :: Vector3

record SceneObject =
  name :: string
  mesh :: "Mesh option"
  transform :: Transform
  onUpdate :: "UpdateCallback option"

record Scene =
  scene_name :: string
  m_Objects :: "SceneObject list"
  m_ObjectIndex :: "string \<rightharpoonup> nat"
  m_Camera :: Camera

text \<open>The default constructor: no objects, an empty index and the default camera set up.\<close>

definition Scene_new :: "Vector3 \<Rightarrow> Vector3 \<Rightarrow> log \<Rightarrow> Scene \<times> log" where
  "Scene_new fwd upv lg =
     (case SetPerspective fwd upv (ToRadians 60) (16 / 9) 0.1 1000 (Camera_default fwd upv, lg) of
        (c, lg1) \<Rightarrow>
          (\<lparr>scene_name = [], m_Objects = [], m_ObjectIndex = Map.empty,
            m_Camera = SetPosition fwd upv (Vector3 0 0 5) c\<rparr>,
           lg1 @ [(Info, [Str ''Scene created with default camera settings.''])]))"

text \<open>
  Erasing at, or taking the address of, a position past the end of the vector is
  undefined behaviour in the source; the model makes it the fault \<open>OutOfRange\<close>.
\<close>

datatype fault = OutOfRange

definition AddObject :: "SceneObject \<Rightarrow> Scene \<times> log \<Rightarrow> Scene \<times> log" where
  "AddObject obj st =
     (case st of (s, lg) \<Rightarrow>
      if m_ObjectIndex s (name obj) \<noteq> None then
        (s, lg @ [(Warn, [Str (''Object with name '' @ [CHR 0x27]), Str (name obj),
                          Str (CHR 0x27 # '' already exists in scene! Skipping add.'')])])
      else
        (s\<lparr>m_ObjectIndex := (m_ObjectIndex s)(name obj \<mapsto> length (m_Objects s)),
            m_Objects := m_Objects s @ [obj]\<rparr>,
         lg @ [(Info, [Str ''Added object to scene: '', Str (name obj)])]))"

definition erase_at :: "'a list \<Rightarrow> nat \<Rightarrow> 'a list" where
  "erase_at xs i = take i xs @ drop (Suc i) xs"

definition RemoveObject :: "string \<Rightarrow> Scene \<times> log \<Rightarrow> fault + Scene \<times> log" where
  "RemoveObject nm st =
     (case st of (s, lg) \<Rightarrow>
      case m_ObjectIndex s nm of
        None \<Rightarrow> Inr (s, lg @ [(Warn, [Str ''Object not found in scene: '', Str nm])])
      | Some index \<Rightarrow>
          if index \<ge> length (m_Objects s) then Inl OutOfRange
          else
            Inr (s\<lparr>m_Objects := erase_at (m_Objects s) index,
                   m_ObjectIndex :=
                     (\<lambda>k. map_option (\<lambda>second. if second > index then second - 1 else second)
                            (((m_ObjectIndex s)(nm := None)) k))\<rparr>,
                 lg @ [(Info, [Str ''Removed object from scene: '', Str nm])]))"

text \<open>\<^verbatim>\<open>FindObject\<close> returns the address of an element, or the null pointer: here the
  element itself, or \<open>None\<close>.\<close>

definition FindObject :: "Scene \<Rightarrow> string \<Rightarrow> fault + SceneObject option" where
  "FindObject s nm =
     (case m_ObjectIndex s nm of
        Some i \<Rightarrow> if i < length (m_Objects s) then Inr (Some (m_Objects s ! i)) else Inl OutOfRange
      | None \<Rightarrow> Inr None)"

text \<open>A sequence of calls, stopping at the first fault.\<close>

datatype scene_op = Add SceneObject | Remove string

fun run :: "scene_op list \<Rightarrow> Scene \<times> log \<Rightarrow> fault + Scene \<times> log" where
  "run [] st = Inr st"
| "run (Add obj # ops) st = run ops (AddObject obj st)"
| "run (Remove nm # ops) st =
     (case RemoveObject nm st of Inl f \<Rightarrow> Inl f | Inr st' \<Rightarrow> run ops st')"


text \<open>
  The relation the scene keeps between the name index and the object list: names are
  unique, the index holds exactly the names of the stored objects, and it maps the
  name of the object at each position to that position.
\<close>

definition index_consistent :: "Scene \<Rightarrow> bool" where
  "index_consistent s \<longleftrightarrow>
     distinct (map name (m_Objects s))
     \<and> dom (m_ObjectIndex s) = name ` set (m_Objects s)
     \<and> (\<forall>i<length (m_Objects s). m_ObjectIndex s (name (m_Objects s ! i)) = Some i)"


section \<open>Binary32 arithmetic (the type f32 of Base.h) and Matrix4 over it\<close>

text \<open>
  The same functions once more with the rounding of \<^verbatim>\<open>f32\<close> made explicit.  A finite
  binary32 value is the real number it denotes, the two zeros identified.  \<open>NonFinite\<close>
  stands for the infinities and NaN together: an operation that overflows, divides by
  zero or has such an operand is \<open>NonFinite\<close> here, which says only that the computation
  has left the finite values and is not followed further.  So \<open>Fin v\<close> as the result of
  a computation means that every intermediate value was finite and the program
  returns \<open>v\<close>.

  \<open>rnd\<close> rounds a real to the nearest binary32 value, ties to the even significand:
  24 significant bits, the unit in the last place being 2 to the power
  \<open>max (\<lfloor>log\<^sub>2 |x|\<rfloor> - 23) (-149)\<close>, and magnitudes that round to 2 to the 128 or more
  overflowing.  Every arithmetic operation of the source on \<^verbatim>\<open>f32\<close> operands is one
  exact operation followed by \<open>rnd\<close>.
\<close>

datatype f32 = Fin real | NonFinite

definition round_even :: "real \<Rightarrow> int" where
  "round_even r =
     (let f = \<lfloor>r\<rfloor>; d = r - of_int f
      in if d < 1 / 2 then f else if d > 1 / 2 then f + 1 else if even f then f else f + 1)"

definition rnd :: "real \<Rightarrow> f32" where
  "rnd x =
     (if x = 0 then Fin 0
      else
        (let e = max (\<lfloor>log 2 \<bar>x\<bar>\<rfloor> - 23) (- 149);
             y = of_int (round_even (x / 2 powi e)) * 2 powi e
         in if \<bar>y\<bar> < 2 ^ 128 then Fin y else NonFinite))"

definition f32_op :: "(real \<Rightarrow> real \<Rightarrow> real) \<Rightarrow> f32 \<Rightarrow> f32 \<Rightarrow> f32" where
  "f32_op g a b =
     (case a of NonFinite \<Rightarrow> NonFinite
      | Fin x \<Rightarrow> (case b of NonFinite \<Rightarrow> NonFinite | Fin y \<Rightarrow> rnd (g x y)))"

instantiation f32 :: "{zero, one, plus, minus, times, uminus, inverse}"
begin

definition zero_f32 :: f32 where
  "zero_f32 = Fin 0"

definition one_f32 :: f32 where
  "one_f32 = Fin 1"

definition plus_f32 :: "f32 \<Rightarrow> f32 \<Rightarrow> f32" where
  "plus_f32 a b = f32_op (+) a b"

definition minus_f32 :: "f32 \<Rightarrow> f32 \<Rightarrow> f32" where
  "minus_f32 a b = f32_op (-) a b"

definition times_f32 :: "f32 \<Rightarrow> f32 \<Rightarrow> f32" where
  "times_f32 a b = f32_op (*) a b"

definition uminus_f32 :: "f32 \<Rightarrow> f32" where
  "uminus_f32 a = (case a of NonFinite \<Rightarrow> NonFinite | Fin x \<Rightarrow> Fin (- x))"

definition divide_f32 :: "f32 \<Rightarrow> f32 \<Rightarrow> f32" where
  "divide_f32 a b = (if b = Fin 0 then NonFinite else f32_op (/) a b)"

definition inverse_f32 :: "f32 \<Rightarrow> f32" where
  "inverse_f32 a = (if a = Fin 0 then NonFinite else f32_op (/) (Fin 1) a)"

instance ..

end

text \<open>
  A matrix of \<^verbatim>\<open>f32\<close> cells is the flat array \<^verbatim>\<open>m[16]\<close> as a list; \<open>to_f32\<close> takes a
  matrix written with real cells to the one the program holds, each cell rounded as a
  literal is.  \<^verbatim>\<open>Determinant\<close>, \<^verbatim>\<open>Inverted\<close> and \<^verbatim>\<open>operator*\<close> follow, with the
  expressions and loops of the source.
\<close>

definition to_f32 :: "Matrix4 \<Rightarrow> f32 list" where
  "to_f32 M = map rnd (cells M)"

definition Identity_f32 :: "f32 list" where
  "Identity_f32 = [1, 0, 0, 0,  0, 1, 0, 0,  0, 0, 1, 0,  0, 0, 0, 1]"

definition Determinant_f32 :: "f32 list \<Rightarrow> f32" where
  "Determinant_f32 M =
     0
     + M ! 0 * (M ! 5 * (M ! 10 * M ! 15 - M ! 11 * M ! 14) -
       M ! 6 * (M ! 9 * M ! 15 - M ! 11 * M ! 13) +
       M ! 7 * (M ! 9 * M ! 14 - M ! 10 * M ! 13))
     - M ! 1 * (M ! 4 * (M ! 10 * M ! 15 - M ! 11 * M ! 14) -
       M ! 6 * (M ! 8 * M ! 15 - M ! 11 * M ! 12) +
       M ! 7 * (M ! 8 * M ! 14 - M ! 10 * M ! 12))
     + M ! 2 * (M ! 4 * (M ! 9 * M ! 15 - M ! 11 * M ! 13) -
       M ! 5 * (M ! 8 * M ! 15 - M ! 11 * M ! 12) +
       M ! 7 * (M ! 8 * M ! 13 - M ! 9 * M ! 12))
     - M ! 3 * (M ! 4 * (M ! 9 * M ! 14 - M ! 10 * M ! 13) -
       M ! 5 * (M ! 8 * M ! 14 - M ! 10 * M ! 12) +
       M ! 6 * (M ! 8 * M ! 13 - M ! 9 * M ! 12))"

definition Inverted_f32 :: "f32 list \<Rightarrow> f32 list" where
  "Inverted_f32 M =
     (case Determinant_f32 M of
        NonFinite \<Rightarrow> replicate 16 NonFinite
      | Fin det \<Rightarrow>
          if NearZero det EPSILON then Identity_f32
          else
            (let invDet = 1 / Fin det
             in [invDet * (M ! 5 * (M ! 10 * M ! 15 - M ! 11 * M ! 14) -
                   M ! 6 * (M ! 9 * M ! 15 - M ! 11 * M ! 13) +
                   M ! 7 * (M ! 9 * M ! 14 - M ! 10 * M ! 13)),
                 - invDet * (M ! 1 * (M ! 10 * M ! 15 - M ! 11 * M ! 14) -
                   M ! 2 * (M ! 9 * M ! 15 - M ! 11 * M ! 13) +
                   M ! 3 * (M ! 9 * M ! 14 - M ! 10 * M ! 13)),
                 invDet * (M ! 1 * (M ! 6 * M ! 15 - M ! 7 * M ! 14) -
                   M ! 2 * (M ! 5 * M ! 15 - M ! 7 * M ! 13) +
                   M ! 3 * (M ! 5 * M ! 14 - M ! 6 * M ! 13)),
                 - invDet * (M ! 1 * (M ! 6 * M ! 11 - M ! 7 * M ! 10) -
                   M ! 2 * (M ! 5 * M ! 11 - M ! 7 * M ! 9) +
                   M ! 3 * (M ! 5 * M ! 10 - M ! 6 * M ! 9)),
                 - invDet * (M ! 4 * (M ! 10 * M ! 15 - M ! 11 * M ! 14) -
                   M ! 6 * (M ! 8 * M ! 15 - M ! 11 * M ! 12) +
                   M ! 7 * (M ! 8 * M ! 14 - M ! 10 * M ! 12)),
                 invDet * (M ! 0 * (M ! 10 * M ! 15 - M ! 11 * M ! 14) -
                   M ! 2 * (M ! 8 * M ! 15 - M ! 11 * M ! 12) +
                   M ! 3 * (M ! 8 * M ! 14 - M ! 10 * M ! 12)),
                 - invDet * (M ! 0 * (M ! 6 * M ! 15 - M ! 7 * M ! 14) -
                   M ! 2 * (M ! 4 * M ! 15 - M ! 7 * M ! 12) +
                   M ! 3 * (M ! 4 * M ! 14 - M ! 6 * M ! 12)),
                 invDet * (M ! 0 * (M ! 6 * M ! 11 - M ! 7 * M ! 10) -
                   M ! 2 * (M ! 4 * M ! 11 - M ! 7 * M ! 8) +
                   M ! 3 * (M ! 4 * M ! 10 - M ! 6 * M ! 8)),
                 invDet * (M ! 4 * (M ! 9 * M ! 15 - M ! 11 * M ! 13) -
                   M ! 5 * (M ! 8 * M ! 15 - M ! 11 * M ! 12) +
                   M ! 7 * (M ! 8 * M ! 13 - M ! 9 * M ! 12)),
                 - invDet * (M ! 0 * (M ! 9 * M ! 15 - M ! 11 * M ! 13) -
                   M ! 1 * (M ! 8 * M ! 15 - M ! 11 * M ! 12) +
                   M ! 3 * (M ! 8 * M ! 13 - M ! 9 * M ! 12)),
                 invDet * (M ! 0 * (M ! 5 * M ! 15 - M ! 7 * M ! 13) -
                   M ! 1 * (M ! 4 * M ! 15 - M ! 7 * M ! 12) +
                   M ! 3 * (M ! 4 * M ! 13 - M ! 5 * M ! 12)),
                 - invDet * (M ! 0 * (M ! 5 * M ! 11 - M ! 7 * M ! 9) -
                   M ! 1 * (M ! 4 * M ! 11 - M ! 7 * M ! 8) +
                   M ! 3 * (M ! 4 * M ! 9 - M ! 5 * M ! 8)),
                 - invDet * (M ! 4 * (M ! 9 * M ! 14 - M ! 10 * M ! 13) -
                   M ! 5 * (M ! 8 * M ! 14 - M ! 10 * M ! 12) +
                   M ! 6 * (M ! 8 * M ! 13 - M ! 9 * M ! 12)),
                 invDet * (M ! 0 * (M ! 9 * M ! 14 - M ! 10 * M ! 13) -
                   M ! 1 * (M ! 8 * M ! 14 - M ! 10 * M ! 12) +
                   M ! 2 * (M ! 8 * M ! 13 - M ! 9 * M ! 12)),
                 - invDet * (M ! 0 * (M ! 5 * M ! 14 - M ! 6 * M ! 13) -
                   M ! 1 * (M ! 4 * M ! 14 - M ! 6 * M ! 12) +
                   M ! 2 * (M ! 4 * M ! 13 - M ! 5 * M ! 12)),
                 invDet * (M ! 0 * (M ! 5 * M ! 10 - M ! 6 * M ! 9) -
                   M ! 1 * (M ! 4 * M ! 10 - M ! 6 * M ! 8) +
                   M ! 2 * (M ! 4 * M ! 9 - M ! 5 * M ! 8))]))"

definition mul_cell_f32 :: "f32 list \<Rightarrow> f32 list \<Rightarrow> nat \<Rightarrow> nat \<Rightarrow> f32 list \<Rightarrow> f32 list" where
  "mul_cell_f32 A B i j R =
     fold (\<lambda>k R. R[4 * i + j := R ! (4 * i + j) + A ! (4 * i + k) * B ! (4 * k + j)])
       [0..<4] (R[4 * i + j := 0])"

definition mul4_f32 :: "f32 list \<Rightarrow> f32 list \<Rightarrow> f32 list" where
  "mul4_f32 A B =
     fold (\<lambda>i R. fold (\<lambda>j R. mul_cell_f32 A B i j R) [0..<4] R) [0..<4] Identity_f32"


section \<open>Evaluation rules for the matrix storage\<close>

lemma m_Matrix4:
  "m (Matrix4 a0 a1 a2 a3 a4 a5 a6 a7 a8 a9 a10 a11 a12 a13 a14 a15) 0 = a0"
  "m (Matrix4 a0 a1 a2 a3 a4 a5 a6 a7 a8 a9 a10 a11 a12 a13 a14 a15) 1 = a1"
  "m (Matrix4 a0 a1 a2 a3 a4 a5 a6 a7 a8 a9 a10 a11 a12 a13 a14 a15) 2 = a2"
  "m (Matrix4 a0 a1 a2 a3 a4 a5 a6 a7 a8 a9 a10 a11 a12 a13 a14 a15) 3 = a3"
  "m (Matrix4 a0 a1 a2 a3 a4 a5 a6 a7 a8 a9 a10 a11 a12 a13 a14 a15) 4 = a4"
  "m (Matrix4 a0 a1 a2 a3 a4 a5 a6 a7 a8 a9 a10 a11 a12 a13 a14 a15) 5 = a5"
  "m (Matrix4 a0 a1 a2 a3 a4 a5 a6 a7 a8 a9 a10 a11 a12 a13 a14 a15) 6 = a6"
  "m (Matrix4 a0 a1 a2 a3 a4 a5 a6 a7 a8 a9 a10 a11 a12 a13 a14 a15) 7 = a7"
  "m (Matrix4 a0 a1 a2 a3 a4 a5 a6 a7 a8 a9 a10 a11 a12 a13 a14 a15) 8 = a8"
  "m (Matrix4 a0 a1 a2 a3 a4 a5 a6 a7 a8 a9 a10 a11 a12 a13 a14 a15) 9 = a9"
  "m (Matrix4 a0 a1 a2 a3 a4 a5 a6 a7 a8 a9 a10 a11 a12 a13 a14 a15) 10 = a10"
  "m (Matrix4 a0 a1 a2 a3 a4 a5 a6 a7 a8 a9 a10 a11 a12 a13 a14 a15) 11 = a11"
  "m (Matrix4 a0 a1 a2 a3 a4 a5 a6 a7 a8 a9 a10 a11 a12 a13 a14 a15) 12 = a12"
  "m (Matrix4 a0 a1 a2 a3 a4 a5 a6 a7 a8 a9 a10 a11 a12 a13 a14 a15) 13 = a13"
  "m (Matrix4 a0 a1 a2 a3 a4 a5 a6 a7 a8 a9 a10 a11 a12 a13 a14 a15) 14 = a14"
  "m (Matrix4 a0 a1 a2 a3 a4 a5 a6 a7 a8 a9 a10 a11 a12 a13 a14 a15) 15 = a15"
  "m (Matrix4 a0 a1 a2 a3 a4 a5 a6 a7 a8 a9 a10 a11 a12 a13 a14 a15) (Suc 0) = a1"
  by (simp_all add: m_def)

lemma upt_0_4: "[0..<4] = [0, 1, 2, 3::nat]"
  by (simp add: upt_conv_Cons)

lemma mm_Matrix4:
  "mm (Matrix4 a0 a1 a2 a3 a4 a5 a6 a7 a8 a9 a10 a11 a12 a13 a14 a15) 0 0 = a0"
  "mm (Matrix4 a0 a1 a2 a3 a4 a5 a6 a7 a8 a9 a10 a11 a12 a13 a14 a15) 0 1 = a1"
  "mm (Matrix4 a0 a1 a2 a3 a4 a5 a6 a7 a8 a9 a10 a11 a12 a13 a14 a15) 0 (Suc 0) = a1"
  "mm (Matrix4 a0 a1 a2 a3 a4 a5 a6 a7 a8 a9 a10 a11 a12 a13 a14 a15) 0 2 = a2"
  "mm (Matrix4 a0 a1 a2 a3 a4 a5 a6 a7 a8 a9 a10 a11 a12 a13 a14 a15) 0 3 = a3"
  "mm (Matrix4 a0 a1 a2 a3 a4 a5 a6 a7 a8 a9 a10 a11 a12 a13 a14 a15) 1 0 = a4"
  "mm (Matrix4 a0 a1 a2 a3 a4 a5 a6 a7 a8 a9 a10 a11 a12 a13 a14 a15) (Suc 0) 0 = a4"
  "mm (Matrix4 a0 a1 a2 a3 a4 a5 a6 a7 a8 a9 a10 a11 a12 a13 a14 a15) 1 1 = a5"
  "mm (Matrix4 a0 a1 a2 a3 a4 a5 a6 a7 a8 a9 a10 a11 a12 a13 a14 a15) 1 (Suc 0) = a5"
  "mm (Matrix4 a0 a1 a2 a3 a4 a5 a6 a7 a8 a9 a10 a11 a12 a13 a14 a15) (Suc 0) 1 = a5"
  "mm (Matrix4 a0 a1 a2 a3 a4 a5 a6 a7 a8 a9 a10 a11 a12 a13 a14 a15) (Suc 0) (Suc 0) = a5"
  "mm (Matrix4 a0 a1 a2 a3 a4 a5 a6 a7 a8 a9 a10 a11 a12 a13 a14 a15) 1 2 = a6"
  "mm (Matrix4 a0 a1 a2 a3 a4 a5 a6 a7 a8 a9 a10 a11 a12 a13 a14 a15) (Suc 0) 2 = a6"
  "mm (Matrix4 a0 a1 a2 a3 a4 a5 a6 a7 a8 a9 a10 a11 a12 a13 a14 a15) 1 3 = a7"
  "mm (Matrix4 a0 a1 a2 a3 a4 a5 a6 a7 a8 a9 a10 a11 a12 a13 a14 a15) (Suc 0) 3 = a7"
  "mm (Matrix4 a0 a1 a2 a3 a4 a5 a6 a7 a8 a9 a10 a11 a12 a13 a14 a15) 2 0 = a8"
  "mm (Matrix4 a0 a1 a2 a3 a4 a5 a6 a7 a8 a9 a10 a11 a12 a13 a14 a15) 2 1 = a9"
  "mm (Matrix4 a0 a1 a2 a3 a4 a5 a6 a7 a8 a9 a10 a11 a12 a13 a14 a15) 2 (Suc 0) = a9"
  "mm (Matrix4 a0 a1 a2 a3 a4 a5 a6 a7 a8 a9 a10 a11 a12 a13 a14 a15) 2 2 = a10"
  "mm (Matrix4 a0 a1 a2 a3 a4 a5 a6 a7 a8 a9 a10 a11 a12 a13 a14 a15) 2 3 = a11"
  "mm (Matrix4 a0 a1 a2 a3 a4 a5 a6 a7 a8 a9 a10 a11 a12 a13 a14 a15) 3 0 = a12"
  "mm (Matrix4 a0 a1 a2 a3 a4 a5 a6 a7 a8 a9 a10 a11 a12 a13 a14 a15) 3 1 = a13"
  "mm (Matrix4 a0 a1 a2 a3 a4 a5 a6 a7 a8 a9 a10 a11 a12 a13 a14 a15) 3 (Suc 0) = a13"
  "mm (Matrix4 a0 a1 a2 a3 a4 a5 a6 a7 a8 a9 a10 a11 a12 a13 a14 a15) 3 2 = a14"
  "mm (Matrix4 a0 a1 a2 a3 a4 a5 a6 a7 a8 a9 a10 a11 a12 a13 a14 a15) 3 3 = a15"
  by (simp_all add: mm_def m_def)

lemma set_m_Matrix4:
  "set_m (Matrix4 a0 a1 a2 a3 a4 a5 a6 a7 a8 a9 a10 a11 a12 a13 a14 a15) 0 v =
     Matrix4 v a1 a2 a3 a4 a5 a6 a7 a8 a9 a10 a11 a12 a13 a14 a15"
  "set_m (Matrix4 a0 a1 a2 a3 a4 a5 a6 a7 a8 a9 a10 a11 a12 a13 a14 a15) 1 v =
     Matrix4 a0 v a2 a3 a4 a5 a6 a7 a8 a9 a10 a11 a12 a13 a14 a15"
  "set_m (Matrix4 a0 a1 a2 a3 a4 a5 a6 a7 a8 a9 a10 a11 a12 a13 a14 a15) (Suc 0) v =
     Matrix4 a0 v a2 a3 a4 a5 a6 a7 a8 a9 a10 a11 a12 a13 a14 a15"
  "set_m (Matrix4 a0 a1 a2 a3 a4 a5 a6 a7 a8 a9 a10 a11 a12 a13 a14 a15) 2 v =
     Matrix4 a0 a1 v a3 a4 a5 a6 a7 a8 a9 a10 a11 a12 a13 a14 a15"
  "set_m (Matrix4 a0 a1 a2 a3 a4 a5 a6 a7 a8 a9 a10 a11 a12 a13 a14 a15) 3 v =
     Matrix4 a0 a1 a2 v a4 a5 a6 a7 a8 a9 a10 a11 a12 a13 a14 a15"
  "set_m (Matrix4 a0 a1 a2 a3 a4 a5 a6 a7 a8 a9 a10 a11 a12 a13 a14 a15) 4 v =
     Matrix4 a0 a1 a2 a3 v a5 a6 a7 a8 a9 a10 a11 a12 a13 a14 a15"
  "set_m (Matrix4 a0 a1 a2 a3 a4 a5 a6 a7 a8 a9 a10 a11 a12 a13 a14 a15) 5 v =
     Matrix4 a0 a1 a2 a3 a4 v a6 a7 a8 a9 a10 a11 a12 a13 a14 a15"
  "set_m (Matrix4 a0 a1 a2 a3 a4 a5 a6 a7 a8 a9 a10 a11 a12 a13 a14 a15) 6 v =
     Matrix4 a0 a1 a2 a3 a4 a5 v a7 a8 a9 a10 a11 a12 a13 a14 a15"
  "set_m (Matrix4 a0 a1 a2 a3 a4 a5 a6 a7 a8 a9 a10 a11 a12 a13 a14 a15) 7 v =
     Matrix4 a0 a1 a2 a3 a4 a5 a6 v a8 a9 a10 a11 a12 a13 a14 a15"
  "set_m (Matrix4 a0 a1 a2 a3 a4 a5 a6 a7 a8 a9 a10 a11 a12 a13 a14 a15) 8 v =
     Matrix4 a0 a1 a2 a3 a4 a5 a6 a7 v a9 a10 a11 a12 a13 a14 a15"
  "set_m (Matrix4 a0 a1 a2 a3 a4 a5 a6 a7 a8 a9 a10 a11 a12 a13 a14 a15) 9 v =
     Matrix4 a0 a1 a2 a3 a4 a5 a6 a7 a8 v a10 a11 a12 a13 a14 a15"
  "set_m (Matrix4 a0 a1 a2 a3 a4 a5 a6 a7 a8 a9 a10 a11 a12 a13 a14 a15) 10 v =
     Matrix4 a0 a1 a2 a3 a4 a5 a6 a7 a8 a9 v a11 a12 a13 a14 a15"
  "set_m (Matrix4 a0 a1 a2 a3 a4 a5 a6 a7 a8 a9 a10 a11 a12 a13 a14 a15) 11 v =
     Matrix4 a0 a1 a2 a3 a4 a5 a6 a7 a8 a9 a10 v a12 a13 a14 a15"
  "set_m (Matrix4 a0 a1 a2 a3 a4 a5 a6 a7 a8 a9 a10 a11 a12 a13 a14 a15) 12 v =
     Matrix4 a0 a1 a2 a3 a4 a5 a6 a7 a8 a9 a10 a11 v a13 a14 a15"
  "set_m (Matrix4 a0 a1 a2 a3 a4 a5 a6 a7 a8 a9 a10 a11 a12 a13 a14 a15) 13 v =
     Matrix4 a0 a1 a2 a3 a4 a5 a6 a7 a8 a9 a10 a11 a12 v a14 a15"
  "set_m (Matrix4 a0 a1 a2 a3 a4 a5 a6 a7 a8 a9 a10 a11 a12 a13 a14 a15) 14 v =
     Matrix4 a0 a1 a2 a3 a4 a5 a6 a7 a8 a9 a10 a11 a12 a13 v a15"
  "set_m (Matrix4 a0 a1 a2 a3 a4 a5 a6 a7 a8 a9 a10 a11 a12 a13 a14 a15) 15 v =
     Matrix4 a0 a1 a2 a3 a4 a5 a6 a7 a8 a9 a10 a11 a12 a13 a14 v"
  by (simp_all add: set_m_def of_cells_def)

lemma set_mm_Matrix4:
  "set_mm (Matrix4 a0 a1 a2 a3 a4 a5 a6 a7 a8 a9 a10 a11 a12 a13 a14 a15) 0 0 v =
     Matrix4 v a1 a2 a3 a4 a5 a6 a7 a8 a9 a10 a11 a12 a13 a14 a15"
  "set_mm (Matrix4 a0 a1 a2 a3 a4 a5 a6 a7 a8 a9 a10 a11 a12 a13 a14 a15) 0 (Suc 0) v =
     Matrix4 a0 v a2 a3 a4 a5 a6 a7 a8 a9 a10 a11 a12 a13 a14 a15"
  "set_mm (Matrix4 a0 a1 a2 a3 a4 a5 a6 a7 a8 a9 a10 a11 a12 a13 a14 a15) 0 2 v =
     Matrix4 a0 a1 v a3 a4 a5 a6 a7 a8 a9 a10 a11 a12 a13 a14 a15"
  "set_mm (Matrix4 a0 a1 a2 a3 a4 a5 a6 a7 a8 a9 a10 a11 a12 a13 a14 a15) 0 3 v =
     Matrix4 a0 a1 a2 v a4 a5 a6 a7 a8 a9 a10 a11 a12 a13 a14 a15"
  "set_mm (Matrix4 a0 a1 a2 a3 a4 a5 a6 a7 a8 a9 a10 a11 a12 a13 a14 a15) (Suc 0) 0 v =
     Matrix4 a0 a1 a2 a3 v a5 a6 a7 a8 a9 a10 a11 a12 a13 a14 a15"
  "set_mm (Matrix4 a0 a1 a2 a3 a4 a5 a6 a7 a8 a9 a10 a11 a12 a13 a14 a15) (Suc 0) (Suc 0) v =
     Matrix4 a0 a1 a2 a3 a4 v a6 a7 a8 a9 a10 a11 a12 a13 a14 a15"
  "set_mm (Matrix4 a0 a1 a2 a3 a4 a5 a6 a7 a8 a9 a10 a11 a12 a13 a14 a15) (Suc 0) 2 v =
     Matrix4 a0 a1 a2 a3 a4 a5 v a7 a8 a9 a10 a11 a12 a13 a14 a15"
  "set_mm (Matrix4 a0 a1 a2 a3 a4 a5 a6 a7 a8 a9 a10 a11 a12 a13 a14 a15) (Suc 0) 3 v =
     Matrix4 a0 a1 a2 a3 a4 a5 a6 v a8 a9 a10 a11 a12 a13 a14 a15"
  "set_mm (Matrix4 a0 a1 a2 a3 a4 a5 a6 a7 a8 a9 a10 a11 a12 a13 a14 a15) 2 0 v =
     Matrix4 a0 a1 a2 a3 a4 a5 a6 a7 v a9 a10 a11 a12 a13 a14 a15"
  "set_mm (Matrix4 a0 a1 a2 a3 a4 a5 a6 a7 a8 a9 a10 a11 a12 a13 a14 a15) 2 (Suc 0) v =
     Matrix4 a0 a1 a2 a3 a4 a5 a6 a7 a8 v a10 a11 a12 a13 a14 a15"
  "set_mm (Matrix4 a0 a1 a2 a3 a4 a5 a6 a7 a8 a9 a10 a11 a12 a13 a14 a15) 2 2 v =
     Matrix4 a0 a1 a2 a3 a4 a5 a6 a7 a8 a9 v a11 a12 a13 a14 a15"
  "set_mm (Matrix4 a0 a1 a2 a3 a4 a5 a6 a7 a8 a9 a10 a11 a12 a13 a14 a15) 2 3 v =
     Matrix4 a0 a1 a2 a3 a4 a5 a6 a7 a8 a9 a10 v a12 a13 a14 a15"
  "set_mm (Matrix4 a0 a1 a2 a3 a4 a5 a6 a7 a8 a9 a10 a11 a12 a13 a14 a15) 3 0 v =
     Matrix4 a0 a1 a2 a3 a4 a5 a6 a7 a8 a9 a10 a11 v a13 a14 a15"
  "set_mm (Matrix4 a0 a1 a2 a3 a4 a5 a6 a7 a8 a9 a10 a11 a12 a13 a14 a15) 3 (Suc 0) v =
     Matrix4 a0 a1 a2 a3 a4 a5 a6 a7 a8 a9 a10 a11 a12 v a14 a15"
  "set_mm (Matrix4 a0 a1 a2 a3 a4 a5 a6 a7 a8 a9 a10 a11 a12 a13 a14 a15) 3 2 v =
     Matrix4 a0 a1 a2 a3 a4 a5 a6 a7 a8 a9 a10 a11 a12 a13 v a15"
  "set_mm (Matrix4 a0 a1 a2 a3 a4 a5 a6 a7 a8 a9 a10 a11 a12 a13 a14 a15) 3 3 v =
     Matrix4 a0 a1 a2 a3 a4 a5 a6 a7 a8 a9 a10 a11 a12 a13 a14 v"
  by (simp_all add: set_mm_def set_m_def of_cells_def)

text \<open>The loops of \<^verbatim>\<open>operator*\<close>, cell by cell, and their overall result.\<close>

lemma mul_cell_Matrix4:
  "mul_cell (Matrix4 a0 a1 a2 a3 a4 a5 a6 a7 a8 a9 a10 a11 a12 a13 a14 a15)
     (Matrix4 b0 b1 b2 b3 b4 b5 b6 b7 b8 b9 b10 b11 b12 b13 b14 b15) 0 0
     (Matrix4 r0 r1 r2 r3 r4 r5 r6 r7 r8 r9 r10 r11 r12 r13 r14 r15) =
     Matrix4 (a0 * b0 + a1 * b4 + a2 * b8 + a3 * b12) r1 r2 r3 r4 r5 r6 r7 r8 r9 r10 r11 r12 r13 r14 r15"
  "mul_cell (Matrix4 a0 a1 a2 a3 a4 a5 a6 a7 a8 a9 a10 a11 a12 a13 a14 a15)
     (Matrix4 b0 b1 b2 b3 b4 b5 b6 b7 b8 b9 b10 b11 b12 b13 b14 b15) 0 (Suc 0)
     (Matrix4 r0 r1 r2 r3 r4 r5 r6 r7 r8 r9 r10 r11 r12 r13 r14 r15) =
     Matrix4 r0 (a0 * b1 + a1 * b5 + a2 * b9 + a3 * b13) r2 r3 r4 r5 r6 r7 r8 r9 r10 r11 r12 r13 r14 r15"
  "mul_cell (Matrix4 a0 a1 a2 a3 a4 a5 a6 a7 a8 a9 a10 a11 a12 a13 a14 a15)
     (Matrix4 b0 b1 b2 b3 b4 b5 b6 b7 b8 b9 b10 b11 b12 b13 b14 b15) 0 2
     (Matrix4 r0 r1 r2 r3 r4 r5 r6 r7 r8 r9 r10 r11 r12 r13 r14 r15) =
     Matrix4 r0 r1 (a0 * b2 + a1 * b6 + a2 * b10 + a3 * b14) r3 r4 r5 r6 r7 r8 r9 r10 r11 r12 r13 r14 r15"
  "mul_cell (Matrix4 a0 a1 a2 a3 a4 a5 a6 a7 a8 a9 a10 a11 a12 a13 a14 a15)
     (Matrix4 b0 b1 b2 b3 b4 b5 b6 b7 b8 b9 b10 b11 b12 b13 b14 b15) 0 3
     (Matrix4 r0 r1 r2 r3 r4 r5 r6 r7 r8 r9 r10 r11 r12 r13 r14 r15) =
     Matrix4 r0 r1 r2 (a0 * b3 + a1 * b7 + a2 * b11 + a3 * b15) r4 r5 r6 r7 r8 r9 r10 r11 r12 r13 r14 r15"
  "mul_cell (Matrix4 a0 a1 a2 a3 a4 a5 a6 a7 a8 a9 a10 a11 a12 a13 a14 a15)
     (Matrix4 b0 b1 b2 b3 b4 b5 b6 b7 b8 b9 b10 b11 b12 b13 b14 b15) (Suc 0) 0
     (Matrix4 r0 r1 r2 r3 r4 r5 r6 r7 r8 r9 r10 r11 r12 r13 r14 r15) =
     Matrix4 r0 r1 r2 r3 (a4 * b0 + a5 * b4 + a6 * b8 + a7 * b12) r5 r6 r7 r8 r9 r10 r11 r12 r13 r14 r15"
  "mul_cell (Matrix4 a0 a1 a2 a3 a4 a5 a6 a7 a8 a9 a10 a11 a12 a13 a14 a15)
     (Matrix4 b0 b1 b2 b3 b4 b5 b6 b7 b8 b9 b10 b11 b12 b13 b14 b15) (Suc 0) (Suc 0)
     (Matrix4 r0 r1 r2 r3 r4 r5 r6 r7 r8 r9 r10 r11 r12 r13 r14 r15) =
     Matrix4 r0 r1 r2 r3 r4 (a4 * b1 + a5 * b5 + a6 * b9 + a7 * b13) r6 r7 r8 r9 r10 r11 r12 r13 r14 r15"
  "mul_cell (Matrix4 a0 a1 a2 a3 a4 a5 a6 a7 a8 a9 a10 a11 a12 a13 a14 a15)
     (Matrix4 b0 b1 b2 b3 b4 b5 b6 b7 b8 b9 b10 b11 b12 b13 b14 b15) (Suc 0) 2
     (Matrix4 r0 r1 r2 r3 r4 r5 r6 r7 r8 r9 r10 r11 r12 r13 r14 r15) =
     Matrix4 r0 r1 r2 r3 r4 r5 (a4 * b2 + a5 * b6 + a6 * b10 + a7 * b14) r7 r8 r9 r10 r11 r12 r13 r14 r15"
  "mul_cell (Matrix4 a0 a1 a2 a3 a4 a5 a6 a7 a8 a9 a10 a11 a12 a13 a14 a15)
     (Matrix4 b0 b1 b2 b3 b4 b5 b6 b7 b8 b9 b10 b11 b12 b13 b14 b15) (Suc 0) 3
     (Matrix4 r0 r1 r2 r3 r4 r5 r6 r7 r8 r9 r10 r11 r12 r13 r14 r15) =
     Matrix4 r0 r1 r2 r3 r4 r5 r6 (a4 * b3 + a5 * b7 + a6 * b11 + a7 * b15) r8 r9 r10 r11 r12 r13 r14 r15"
  "mul_cell (Matrix4 a0 a1 a2 a3 a4 a5 a6 a7 a8 a9 a10 a11 a12 a13 a14 a15)
     (Matrix4 b0 b1 b2 b3 b4 b5 b6 b7 b8 b9 b10 b11 b12 b13 b14 b15) 2 0
     (Matrix4 r0 r1 r2 r3 r4 r5 r6 r7 r8 r9 r10 r11 r12 r13 r14 r15) =
     Matrix4 r0 r1 r2 r3 r4 r5 r6 r7 (a8 * b0 + a9 * b4 + a10 * b8 + a11 * b12) r9 r10 r11 r12 r13 r14 r15"
  "mul_cell (Matrix4 a0 a1 a2 a3 a4 a5 a6 a7 a8 a9 a10 a11 a12 a13 a14 a15)
     (Matrix4 b0 b1 b2 b3 b4 b5 b6 b7 b8 b9 b10 b11 b12 b13 b14 b15) 2 (Suc 0)
     (Matrix4 r0 r1 r2 r3 r4 r5 r6 r7 r8 r9 r10 r11 r12 r13 r14 r15) =
     Matrix4 r0 r1 r2 r3 r4 r5 r6 r7 r8 (a8 * b1 + a9 * b5 + a10 * b9 + a11 * b13) r10 r11 r12 r13 r14 r15"
  "mul_cell (Matrix4 a0 a1 a2 a3 a4 a5 a6 a7 a8 a9 a10 a11 a12 a13 a14 a15)
     (Matrix4 b0 b1 b2 b3 b4 b5 b6 b7 b8 b9 b10 b11 b12 b13 b14 b15) 2 2
     (Matrix4 r0 r1 r2 r3 r4 r5 r6 r7 r8 r9 r10 r11 r12 r13 r14 r15) =
     Matrix4 r0 r1 r2 r3 r4 r5 r6 r7 r8 r9 (a8 * b2 + a9 * b6 + a10 * b10 + a11 * b14) r11 r12 r13 r14 r15"
  "mul_cell (Matrix4 a0 a1 a2 a3 a4 a5 a6 a7 a8 a9 a10 a11 a12 a13 a14 a15)
     (Matrix4 b0 b1 b2 b3 b4 b5 b6 b7 b8 b9 b10 b11 b12 b13 b14 b15) 2 3
     (Matrix4 r0 r1 r2 r3 r4 r5 r6 r7 r8 r9 r10 r11 r12 r13 r14 r15) =
     Matrix4 r0 r1 r2 r3 r4 r5 r6 r7 r8 r9 r10 (a8 * b3 + a9 * b7 + a10 * b11 + a11 * b15) r12 r13 r14 r15"
  "mul_cell (Matrix4 a0 a1 a2 a3 a4 a5 a6 a7 a8 a9 a10 a11 a12 a13 a14 a15)
     (Matrix4 b0 b1 b2 b3 b4 b5 b6 b7 b8 b9 b10 b11 b12 b13 b14 b15) 3 0
     (Matrix4 r0 r1 r2 r3 r4 r5 r6 r7 r8 r9 r10 r11 r12 r13 r14 r15) =
     Matrix4 r0 r1 r2 r3 r4 r5 r6 r7 r8 r9 r10 r11 (a12 * b0 + a13 * b4 + a14 * b8 + a15 * b12) r13 r14 r15"
  "mul_cell (Matrix4 a0 a1 a2 a3 a4 a5 a6 a7 a8 a9 a10 a11 a12 a13 a14 a15)
     (Matrix4 b0 b1 b2 b3 b4 b5 b6 b7 b8 b9 b10 b11 b12 b13 b14 b15) 3 (Suc 0)
     (Matrix4 r0 r1 r2 r3 r4 r5 r6 r7 r8 r9 r10 r11 r12 r13 r14 r15) =
     Matrix4 r0 r1 r2 r3 r4 r5 r6 r7 r8 r9 r10 r11 r12 (a12 * b1 + a13 * b5 + a14 * b9 + a15 * b13) r14 r15"
  "mul_cell (Matrix4 a0 a1 a2 a3 a4 a5 a6 a7 a8 a9 a10 a11 a12 a13 a14 a15)
     (Matrix4 b0 b1 b2 b3 b4 b5 b6 b7 b8 b9 b10 b11 b12 b13 b14 b15) 3 2
     (Matrix4 r0 r1 r2 r3 r4 r5 r6 r7 r8 r9 r10 r11 r12 r13 r14 r15) =
     Matrix4 r0 r1 r2 r3 r4 r5 r6 r7 r8 r9 r10 r11 r12 r13 (a12 * b2 + a13 * b6 + a14 * b10 + a15 * b14) r15"
  "mul_cell (Matrix4 a0 a1 a2 a3 a4 a5 a6 a7 a8 a9 a10 a11 a12 a13 a14 a15)
     (Matrix4 b0 b1 b2 b3 b4 b5 b6 b7 b8 b9 b10 b11 b12 b13 b14 b15) 3 3
     (Matrix4 r0 r1 r2 r3 r4 r5 r6 r7 r8 r9 r10 r11 r12 r13 r14 r15) =
     Matrix4 r0 r1 r2 r3 r4 r5 r6 r7 r8 r9 r10 r11 r12 r13 r14 (a12 * b3 + a13 * b7 + a14 * b11 + a15 * b15)"
  by (simp_all add: mul_cell_def mm_Matrix4 set_mm_Matrix4 upt_0_4)

lemma mul4_Matrix4:
  "mul4 (Matrix4 a0 a1 a2 a3 a4 a5 a6 a7 a8 a9 a10 a11 a12 a13 a14 a15)
        (Matrix4 b0 b1 b2 b3 b4 b5 b6 b7 b8 b9 b10 b11 b12 b13 b14 b15) =
     Matrix4
       (a0 * b0 + a1 * b4 + a2 * b8 + a3 * b12) (a0 * b1 + a1 * b5 + a2 * b9 + a3 * b13) (a0 * b2 + a1 * b6 + a2 * b10 + a3 * b14) (a0 * b3 + a1 * b7 + a2 * b11 + a3 * b15)
       (a4 * b0 + a5 * b4 + a6 * b8 + a7 * b12) (a4 * b1 + a5 * b5 + a6 * b9 + a7 * b13) (a4 * b2 + a5 * b6 + a6 * b10 + a7 * b14) (a4 * b3 + a5 * b7 + a6 * b11 + a7 * b15)
       (a8 * b0 + a9 * b4 + a10 * b8 + a11 * b12) (a8 * b1 + a9 * b5 + a10 * b9 + a11 * b13) (a8 * b2 + a9 * b6 + a10 * b10 + a11 * b14) (a8 * b3 + a9 * b7 + a10 * b11 + a11 * b15)
       (a12 * b0 + a13 * b4 + a14 * b8 + a15 * b12) (a12 * b1 + a13 * b5 + a14 * b9 + a15 * b13) (a12 * b2 + a13 * b6 + a14 * b10 + a15 * b14) (a12 * b3 + a13 * b7 + a14 * b11 + a15 * b15)"
  by (simp add: mul4_def mul_cell_Matrix4 Identity_def upt_0_4)

text \<open>
  The cells assigned by \<^verbatim>\<open>Inverted\<close> are those of the adjugate divided by the
  determinant: multiplying back gives the identity, cell by cell a polynomial identity.
\<close>

lemma mul4_adjugate_scaled:
  assumes "invDet * Determinant M = 1"
  shows "mul4 M (adjugate_scaled M invDet) = Identity"
proof (cases M)
  case (Matrix4 a0 a1 a2 a3 a4 a5 a6 a7 a8 a9 a10 a11 a12 a13 a14 a15)
  from assms have d: "invDet * (a0 * (a5 * (a10 * a15 - a11 * a14) -
                a6 * (a9 * a15 - a11 * a13) +
                a7 * (a9 * a14 - a10 * a13))
     - a1 * (a4 * (a10 * a15 - a11 * a14) -
                a6 * (a8 * a15 - a11 * a12) +
                a7 * (a8 * a14 - a10 * a12))
     + a2 * (a4 * (a9 * a15 - a11 * a13) -
                a5 * (a8 * a15 - a11 * a12) +
                a7 * (a8 * a13 - a9 * a12))
     - a3 * (a4 * (a9 * a14 - a10 * a13) -
                a5 * (a8 * a14 - a10 * a12) +
                a6 * (a8 * a13 - a9 * a12))) = 1"
    by (simp add: Matrix4 Determinant_def m_Matrix4)
  show ?thesis
    unfolding Matrix4 adjugate_scaled_def m_Matrix4 mul4_Matrix4 Identity_def Matrix4.inject
    apply (intro conjI)
    using d apply algebra+
    done
qed

lemma mul4_Inverted:
  assumes "Determinant M \<noteq> 0" and "\<not> NearZero (Determinant M) EPSILON"
  shows "mul4 M (Inverted M) = Identity"
  using assms by (simp add: Inverted_def mul4_adjugate_scaled)



section \<open>Matrix inversion: the singular fallback\<close>




section \<open>Matrix inversion: the regular case\<close>

text \<open>
  C1, as the code has it.  In exact arithmetic, for every matrix whose determinant has
  absolute value above 1e-6 the product \<^verbatim>\<open>M * M.Inverted()\<close> is the identity matrix:
  the cells \<^verbatim>\<open>Inverted\<close> assigns are those of the adjugate divided by the determinant.
  With the rounding of \<^verbatim>\<open>f32\<close> the product is not within 1e-4 of the identity for
  every such matrix, as the example after the witness shows.
\<close>

theorem Inverted_right_inverse:
  "\<bar>Determinant M\<bar> > 1 / 1000000 \<Longrightarrow> mul4 M (Inverted M) = Identity"
proof -
  assume big: "\<bar>Determinant M\<bar> > 1 / 1000000"
  then have "Determinant M \<noteq> 0" and "\<not> NearZero (Determinant M) EPSILON"
    by (auto simp: NearZero_def EPSILON_def)
  then show "mul4 M (Inverted M) = Identity"
    by (rule mul4_Inverted)
qed

theorem Inverted_right_inverse_witness:
  "\<bar>Determinant (Matrix4 2 0 0 1  0 1 0 2  0 0 1 3  0 0 0 1)\<bar> > 1 / 1000000
   \<and> Inverted (Matrix4 2 0 0 1  0 1 0 2  0 0 1 3  0 0 0 1)
       = Matrix4 (1/2) 0 0 (-1/2)  0 1 0 (-2)  0 0 1 (-3)  0 0 0 1
   \<and> mul4 (Matrix4 2 0 0 1  0 1 0 2  0 0 1 3  0 0 0 1)
         (Inverted (Matrix4 2 0 0 1  0 1 0 2  0 0 1 3  0 0 0 1))
       = Matrix4 1 0 0 0  0 1 0 0  0 0 1 0  0 0 0 1"
proof -
  have det: "Determinant (Matrix4 2 0 0 1  0 1 0 2  0 0 1 3  0 0 0 1) = 2"
    by (simp add: Determinant_def m_Matrix4)
  then have big: "\<bar>Determinant (Matrix4 2 0 0 1  0 1 0 2  0 0 1 3  0 0 0 1)\<bar> > 1 / 1000000"
    by simp
  have inv: "Inverted (Matrix4 2 0 0 1  0 1 0 2  0 0 1 3  0 0 0 1)
       = Matrix4 (1/2) 0 0 (-1/2)  0 1 0 (-2)  0 0 1 (-3)  0 0 0 1"
    by (simp add: Inverted_def det NearZero_def EPSILON_def adjugate_scaled_def m_Matrix4)
  from Inverted_right_inverse [OF big] big inv show ?thesis
    by (simp add: Identity_def)
qed

text \<open>
  Rounding.  An integer with at most 24 significant bits is a binary32 value and rounds
  to itself; 50376714 needs 25 and lies half way between two binary32 values, of which
  50376712 has the even significand.
\<close>

lemma round_even_of_int: "round_even (of_int z) = z"
  by (simp add: round_even_def)

lemma rnd_int_exact:
  fixes z :: int and j :: nat
  assumes bound: "\<bar>z\<bar> < 2 ^ (24 + j)" and dvd: "2 ^ j dvd z" and j: "j \<le> 100"
  shows "rnd (of_int z) = Fin (of_int z)"
proof (cases "z = 0")
  case True
  then show ?thesis by (simp add: rnd_def)
next
  case False
  define x :: real where "x = of_int z"
  define L where "L = \<lfloor>log 2 \<bar>x\<bar>\<rfloor>"
  define e where "e = max (L - 23) (- 149)"
  from False have "1 \<le> \<bar>z\<bar>" by simp
  then have x1: "1 \<le> \<bar>x\<bar>" unfolding x_def by (metis of_int_1_le_iff of_int_abs)
  then have x0: "x \<noteq> 0" by auto
  from bound have xb: "\<bar>x\<bar> < 2 ^ (24 + j)" unfolding x_def
    by (metis of_int_abs of_int_less_iff of_int_numeral of_int_power)
  from x1 have "0 \<le> log 2 \<bar>x\<bar>" by simp
  then have L0: "0 \<le> L" unfolding L_def by simp
  from xb x1 have "log 2 \<bar>x\<bar> < log 2 (2 ^ (24 + j))" by (subst log_less_cancel_iff) simp_all
  then have "log 2 \<bar>x\<bar> < real (24 + j)" by (simp add: log_nat_power)
  then have L1: "L < 24 + int j" unfolding L_def by (simp add: floor_less_iff)
  from L0 L1 have e: "e = L - 23" "- 23 \<le> e" "e \<le> int j" unfolding e_def by simp_all
  have "\<exists>q::int. x = of_int q * 2 powi e"
  proof (cases "e \<le> 0")
    case True
    then have "(2::real) powi e * 2 ^ nat (- e) = 1"
      by (simp add: power_int_def field_simps)
    then have "x = of_int (z * 2 ^ nat (- e)) * 2 powi e" unfolding x_def by (simp add: mult.assoc mult.commute)
    then show ?thesis by blast
  next
    case False
    then have ne: "nat e \<le> j" and pe: "(2::real) powi e = 2 ^ nat e" using e
      by (simp_all add: power_int_def)
    from ne have "(2::int) ^ nat e dvd 2 ^ j" by (simp add: le_imp_power_dvd)
    from this dvd have "(2::int) ^ nat e dvd z" by (rule dvd_trans)
    then obtain q where "z = (2::int) ^ nat e * q" by (auto simp: dvd_def)
    then have "x = of_int q * 2 powi e" unfolding x_def pe by simp
    then show ?thesis by blast
  qed
  then obtain q :: int where q: "x = of_int q * 2 powi e" by blast
  have p0: "(2::real) powi e \<noteq> 0" by simp
  from q p0 have "x / 2 powi e = of_int q" by simp
  then have "of_int (round_even (x / 2 powi e)) * 2 powi e = x"
    using q by (simp add: round_even_of_int)
  moreover have "\<bar>x\<bar> < 2 ^ 128"
  proof -
    from j have "(2::real) ^ (24 + j) \<le> 2 ^ 128" by (intro power_increasing) simp_all
    with xb show ?thesis by linarith
  qed
  ultimately have "rnd x = Fin x" using x0
    unfolding rnd_def e_def L_def by (simp add: Let_def)
  then show ?thesis by (simp add: x_def)
qed


lemma rnd_simps:
  "rnd 0 = Fin 0"
  "rnd 1 = Fin 1"
  "rnd (- 1) = Fin (- 1)"
  using rnd_int_exact [of 0 0] rnd_int_exact [of 1 0] rnd_int_exact [of "- 1" 0] by simp_all

lemma rnd_numeral_24:
  "(numeral w :: int) < 16777216 \<Longrightarrow> rnd (numeral w) = Fin (numeral w)"
  "(numeral w :: int) < 16777216 \<Longrightarrow> rnd (- numeral w) = Fin (- numeral w)"
  using rnd_int_exact [of "numeral w" 0] rnd_int_exact [of "- numeral w" 0] by simp_all

lemma rnd_numeral_25:
  "(numeral w :: int) < 33554432 \<Longrightarrow> (numeral w :: int) mod 2 = 0 \<Longrightarrow>
     rnd (numeral w) = Fin (numeral w)"
  "(numeral w :: int) < 33554432 \<Longrightarrow> (numeral w :: int) mod 2 = 0 \<Longrightarrow>
     rnd (- numeral w) = Fin (- numeral w)"
  using rnd_int_exact [of "numeral w" 1] rnd_int_exact [of "- numeral w" 1]
  by (simp_all add: dvd_eq_mod_eq_0)

lemma rnd_numeral_26:
  "(numeral w :: int) < 67108864 \<Longrightarrow> (numeral w :: int) mod 4 = 0 \<Longrightarrow>
     rnd (numeral w) = Fin (numeral w)"
  "(numeral w :: int) < 67108864 \<Longrightarrow> (numeral w :: int) mod 4 = 0 \<Longrightarrow>
     rnd (- numeral w) = Fin (- numeral w)"
  using rnd_int_exact [of "numeral w" 2] rnd_int_exact [of "- numeral w" 2]
  by (simp_all add: dvd_eq_mod_eq_0)

lemma rnd_tie: "rnd 50376714 = Fin 50376712"
proof -
  have "\<lfloor>log 2 \<bar>50376714 :: real\<bar>\<rfloor> = 25"
    by (subst floor_log_eq_powr_iff) simp_all
  then show ?thesis
    by (simp add: rnd_def Let_def round_even_def)
qed

lemmas f32_eval = zero_f32_def one_f32_def plus_f32_def minus_f32_def times_f32_def
  uminus_f32_def divide_f32_def f32_op_def rnd_simps rnd_numeral_24 rnd_numeral_25
  rnd_numeral_26 rnd_tie

lemma to_f32_example: "to_f32 (Matrix4 4097 4098 1 0  4099 4096 (- 2) 0  1 1 0 0  0 0 0 1) =
    [Fin 4097, Fin 4098, Fin 1, Fin 0, Fin 4099, Fin 4096, Fin (- 2), Fin 0,
     Fin 1, Fin 1, Fin 0, Fin 0, Fin 0, Fin 0, Fin 0, Fin 1]"
  by (simp add: to_f32_def rnd_simps rnd_numeral_24)

lemma Determinant_f32_example: "Determinant_f32 [Fin 4097, Fin 4098, Fin 1, Fin 0, Fin 4099, Fin 4096, Fin (- 2), Fin 0,
     Fin 1, Fin 1, Fin 0, Fin 0, Fin 0, Fin 0, Fin 0, Fin 1] = Fin 1"
  by (simp add: Determinant_f32_def f32_eval)


lemma Inverted_f32_example: "Inverted_f32 [Fin 4097, Fin 4098, Fin 1, Fin 0, Fin 4099, Fin 4096, Fin (- 2), Fin 0,
     Fin 1, Fin 1, Fin 0, Fin 0, Fin 0, Fin 0, Fin 0, Fin 1] =
    [Fin 2, Fin 1, Fin (- 12292), Fin 0, Fin (- 2), Fin (- 1), Fin 12293, Fin 0,
     Fin 3, Fin 1, Fin (- 16390), Fin 0, Fin 0, Fin 0, Fin 0, Fin 1]"
  by (simp add: Inverted_f32_def Determinant_f32_example NearZero_def EPSILON_def Let_def f32_eval)

lemma mul_cell_f32_eq:
  "4 * i + j < length R \<Longrightarrow>
     mul_cell_f32 A B i j R =
       R[4 * i + j := 0 + A ! (4 * i + 0) * B ! (4 * 0 + j) + A ! (4 * i + 1) * B ! (4 * 1 + j)
                        + A ! (4 * i + 2) * B ! (4 * 2 + j) + A ! (4 * i + 3) * B ! (4 * 3 + j)]"
  by (simp add: mul_cell_f32_def upt_0_4)

lemma mul4_f32_cells:
  "mul4_f32 A B =
     [0 + A ! 0 * B ! 0 + A ! 1 * B ! 4 + A ! 2 * B ! 8 + A ! 3 * B ! 12,
      0 + A ! 0 * B ! 1 + A ! 1 * B ! 5 + A ! 2 * B ! 9 + A ! 3 * B ! 13,
      0 + A ! 0 * B ! 2 + A ! 1 * B ! 6 + A ! 2 * B ! 10 + A ! 3 * B ! 14,
      0 + A ! 0 * B ! 3 + A ! 1 * B ! 7 + A ! 2 * B ! 11 + A ! 3 * B ! 15,
      0 + A ! 4 * B ! 0 + A ! 5 * B ! 4 + A ! 6 * B ! 8 + A ! 7 * B ! 12,
      0 + A ! 4 * B ! 1 + A ! 5 * B ! 5 + A ! 6 * B ! 9 + A ! 7 * B ! 13,
      0 + A ! 4 * B ! 2 + A ! 5 * B ! 6 + A ! 6 * B ! 10 + A ! 7 * B ! 14,
      0 + A ! 4 * B ! 3 + A ! 5 * B ! 7 + A ! 6 * B ! 11 + A ! 7 * B ! 15,
      0 + A ! 8 * B ! 0 + A ! 9 * B ! 4 + A ! 10 * B ! 8 + A ! 11 * B ! 12,
      0 + A ! 8 * B ! 1 + A ! 9 * B ! 5 + A ! 10 * B ! 9 + A ! 11 * B ! 13,
      0 + A ! 8 * B ! 2 + A ! 9 * B ! 6 + A ! 10 * B ! 10 + A ! 11 * B ! 14,
      0 + A ! 8 * B ! 3 + A ! 9 * B ! 7 + A ! 10 * B ! 11 + A ! 11 * B ! 15,
      0 + A ! 12 * B ! 0 + A ! 13 * B ! 4 + A ! 14 * B ! 8 + A ! 15 * B ! 12,
      0 + A ! 12 * B ! 1 + A ! 13 * B ! 5 + A ! 14 * B ! 9 + A ! 15 * B ! 13,
      0 + A ! 12 * B ! 2 + A ! 13 * B ! 6 + A ! 14 * B ! 10 + A ! 15 * B ! 14,
      0 + A ! 12 * B ! 3 + A ! 13 * B ! 7 + A ! 14 * B ! 11 + A ! 15 * B ! 15]"
  by (simp add: mul4_f32_def upt_0_4 mul_cell_f32_eq Identity_f32_def flip: numeral_2_eq_2)

lemma mul4_f32_example: "mul4_f32 [Fin 4097, Fin 4098, Fin 1, Fin 0, Fin 4099, Fin 4096, Fin (- 2), Fin 0,
     Fin 1, Fin 1, Fin 0, Fin 0, Fin 0, Fin 0, Fin 0, Fin 1]
    [Fin 2, Fin 1, Fin (- 12292), Fin 0, Fin (- 2), Fin (- 1), Fin 12293, Fin 0,
     Fin 3, Fin 1, Fin (- 16390), Fin 0, Fin 0, Fin 0, Fin 0, Fin 1] =
    [Fin 1, Fin 0, Fin (- 2), Fin 0, Fin 0, Fin 1, Fin 0, Fin 0,
     Fin 0, Fin 0, Fin 1, Fin 0, Fin 0, Fin 0, Fin 0, Fin 1]"
  by (simp add: mul4_f32_cells f32_eval)

text \<open>
  The matrix with rows (4097, 4098, 1, 0), (4099, 4096, -2, 0), (1, 1, 0, 0) and
  (0, 0, 0, 1) has determinant 1, exactly and as computed.  Every operation of
  \<^verbatim>\<open>Determinant\<close> and \<^verbatim>\<open>Inverted\<close> on it is exact, so \<^verbatim>\<open>Inverted\<close> returns its inverse.
  In the product, 4098 * 12293 = 50376714 is rounded to 50376712, and cell (0,2), which
  is 0 in the identity, comes out as -2.
\<close>

theorem Inverted_right_inverse_counterexample:
  "\<bar>Determinant (Matrix4 4097 4098 1 0  4099 4096 (- 2) 0  1 1 0 0  0 0 0 1)\<bar> > 1 / 1000000
   \<and> Determinant_f32 (to_f32 (Matrix4 4097 4098 1 0  4099 4096 (- 2) 0  1 1 0 0  0 0 0 1)) = Fin 1
   \<and> Inverted_f32 (to_f32 (Matrix4 4097 4098 1 0  4099 4096 (- 2) 0  1 1 0 0  0 0 0 1)) =
       [Fin 2, Fin 1, Fin (- 12292), Fin 0, Fin (- 2), Fin (- 1), Fin 12293, Fin 0,
        Fin 3, Fin 1, Fin (- 16390), Fin 0, Fin 0, Fin 0, Fin 0, Fin 1]
   \<and> mul4_f32 (to_f32 (Matrix4 4097 4098 1 0  4099 4096 (- 2) 0  1 1 0 0  0 0 0 1))
         (Inverted_f32 (to_f32 (Matrix4 4097 4098 1 0  4099 4096 (- 2) 0  1 1 0 0  0 0 0 1))) =
       [Fin 1, Fin 0, Fin (- 2), Fin 0, Fin 0, Fin 1, Fin 0, Fin 0,
        Fin 0, Fin 0, Fin 1, Fin 0, Fin 0, Fin 0, Fin 0, Fin 1]
   \<and> mul4_f32 (to_f32 (Matrix4 4097 4098 1 0  4099 4096 (- 2) 0  1 1 0 0  0 0 0 1))
         (Inverted_f32 (to_f32 (Matrix4 4097 4098 1 0  4099 4096 (- 2) 0  1 1 0 0  0 0 0 1))) ! 2
       = Fin (- 2)
   \<and> Identity_f32 ! 2 = Fin 0
   \<and> \<not> \<bar>(- 2) - 0\<bar> \<le> (1 / 10000 :: real)"
  by (simp add: to_f32_example Determinant_f32_example Inverted_f32_example mul4_f32_example
      Determinant_def m_Matrix4 Identity_f32_def zero_f32_def)


section \<open>Quaternion interpolation clamps its parameter\<close>

lemma Slerp_Clamp: "Clamp t 0 1 = Clamp t' 0 1 \<Longrightarrow> Slerp a b t = Slerp a b t'"
  by (simp add: Slerp_def)

lemma qLerp_Clamp: "Clamp t 0 1 = Clamp t' 0 1 \<Longrightarrow> qLerp a b t = qLerp a b t'"
  by (simp add: qLerp_def)

lemma qNormalized_unit: "qLengthSquared q = 1 \<Longrightarrow> qNormalized q = q"
  by (simp add: qNormalized_def qNormalize_def qLength_def EPSILON_def)

text \<open>
  C10.  \<^verbatim>\<open>Slerp\<close> and \<^verbatim>\<open>Lerp\<close> on quaternions clamp \<open>t\<close> to [0, 1] first: for
  \<open>t > 1\<close> the result is that for \<open>t = 1\<close>, for \<open>t < 0\<close> that for \<open>t = 0\<close>.  The
  vector \<^verbatim>\<open>Lerp\<close> uses \<open>t\<close> as it is.
\<close>

theorem quaternion_interpolation_clamps:
  "(t > 1 \<longrightarrow> Slerp a b t = Slerp a b 1 \<and> qLerp a b t = qLerp a b 1)
   \<and> (t < 0 \<longrightarrow> Slerp a b t = Slerp a b 0 \<and> qLerp a b t = qLerp a b 0)
   \<and> Lerp3 u v t = Vector3 (vx u + t * (vx v - vx u)) (vy u + t * (vy v - vy u))
                       (vz u + t * (vz v - vz u))"
proof -
  have hi: "t > 1 \<Longrightarrow> Clamp t 0 1 = Clamp 1 0 1" and lo: "t < 0 \<Longrightarrow> Clamp t 0 1 = Clamp 0 0 1"
    by (simp_all add: Clamp_def)
  show ?thesis
    using Slerp_Clamp [OF hi] qLerp_Clamp [OF hi] Slerp_Clamp [OF lo] qLerp_Clamp [OF lo]
    by (simp add: Lerp3_def Lerp_def)
qed

theorem quaternion_interpolation_clamps_witness:
  "(2::real) > 1 \<and> (- 1::real) < 0
   \<and> Slerp (Quaternion 0 0 0 1) (Quaternion 1 0 0 0) 2 = Quaternion 1 0 0 0
   \<and> Slerp (Quaternion 0 0 0 1) (Quaternion 1 0 0 0) 1 = Quaternion 1 0 0 0
   \<and> qLerp (Quaternion 0 0 0 1) (Quaternion 1 0 0 0) 2 = Quaternion 1 0 0 0
   \<and> qLerp (Quaternion 0 0 0 1) (Quaternion 1 0 0 0) 1 = Quaternion 1 0 0 0
   \<and> Slerp (Quaternion 0 0 0 1) (Quaternion 1 0 0 0) (- 1) = Quaternion 0 0 0 1
   \<and> Slerp (Quaternion 0 0 0 1) (Quaternion 1 0 0 0) 0 = Quaternion 0 0 0 1
   \<and> qLerp (Quaternion 0 0 0 1) (Quaternion 1 0 0 0) (- 1) = Quaternion 0 0 0 1
   \<and> qLerp (Quaternion 0 0 0 1) (Quaternion 1 0 0 0) 0 = Quaternion 0 0 0 1
   \<and> Lerp3 (Vector3 0 0 0) (Vector3 1 1 1) 2 = Vector3 2 2 2"
proof -
  have s1: "Slerp (Quaternion 0 0 0 1) (Quaternion 1 0 0 0) 1 = Quaternion 1 0 0 0"
    by (simp add: Slerp_def Clamp_def qDot_def NearZero_def EPSILON_def qscale_def qadd_def
        qNormalized_unit qLengthSquared_def)
  have s0: "Slerp (Quaternion 0 0 0 1) (Quaternion 1 0 0 0) 0 = Quaternion 0 0 0 1"
    by (simp add: Slerp_def Clamp_def qDot_def NearZero_def EPSILON_def qscale_def qadd_def
        qNormalized_unit qLengthSquared_def)
  have l1: "qLerp (Quaternion 0 0 0 1) (Quaternion 1 0 0 0) 1 = Quaternion 1 0 0 0"
    by (simp add: qLerp_def Clamp_def qscale_def qadd_def qNormalized_unit qLengthSquared_def)
  have l0: "qLerp (Quaternion 0 0 0 1) (Quaternion 1 0 0 0) 0 = Quaternion 0 0 0 1"
    by (simp add: qLerp_def Clamp_def qscale_def qadd_def qNormalized_unit qLengthSquared_def)
  from quaternion_interpolation_clamps [of 2 "Quaternion 0 0 0 1" "Quaternion 1 0 0 0"
      "Vector3 0 0 0" "Vector3 1 1 1"]
    quaternion_interpolation_clamps [of "- 1" "Quaternion 0 0 0 1" "Quaternion 1 0 0 0"
      "Vector3 0 0 0" "Vector3 1 1 1"] s1 s0 l1 l0
  show ?thesis by simp
qed


section \<open>Camera: rejected projection parameters\<close>

text \<open>
  C4.  \<^verbatim>\<open>SetPerspective\<close> called with a field of view that is not strictly between 0 and
  \<^verbatim>\<open>Math::PI\<close>, an aspect ratio or near plane that is not positive, or a far plane not
  beyond the near plane, issues one error-level log statement and returns the camera,
  all fields and both matrices, as it was.
\<close>

theorem SetPerspective_invalid_noop:
  "fov \<le> 0 \<or> fov \<ge> PI \<or> aspect \<le> 0 \<or> near \<le> 0 \<or> far \<le> near \<Longrightarrow>
     \<exists>msg. SetPerspective fwd upv fov aspect near far (c, lg) = (c, lg @ [(Error, msg)])"
  by (auto simp: SetPerspective_def)

theorem SetPerspective_invalid_noop_witness:
  "(\<exists>msg. SetPerspective (Vector3 0 0 (- 1)) (Vector3 0 1 0) 0 1 1 2
            (Camera_default (Vector3 0 0 (- 1)) (Vector3 0 1 0), [])
         = (Camera_default (Vector3 0 0 (- 1)) (Vector3 0 1 0), [(Error, msg)]))
   \<and> (\<exists>msg. SetPerspective (Vector3 0 0 (- 1)) (Vector3 0 1 0) PI 1 1 2
            (Camera_default (Vector3 0 0 (- 1)) (Vector3 0 1 0), [])
         = (Camera_default (Vector3 0 0 (- 1)) (Vector3 0 1 0), [(Error, msg)]))
   \<and> (\<exists>msg. SetPerspective (Vector3 0 0 (- 1)) (Vector3 0 1 0) 1 0 1 2
            (Camera_default (Vector3 0 0 (- 1)) (Vector3 0 1 0), [])
         = (Camera_default (Vector3 0 0 (- 1)) (Vector3 0 1 0), [(Error, msg)]))
   \<and> (\<exists>msg. SetPerspective (Vector3 0 0 (- 1)) (Vector3 0 1 0) 1 1 0 2
            (Camera_default (Vector3 0 0 (- 1)) (Vector3 0 1 0), [])
         = (Camera_default (Vector3 0 0 (- 1)) (Vector3 0 1 0), [(Error, msg)]))
   \<and> (\<exists>msg. SetPerspective (Vector3 0 0 (- 1)) (Vector3 0 1 0) 1 1 2 2
            (Camera_default (Vector3 0 0 (- 1)) (Vector3 0 1 0), [])
         = (Camera_default (Vector3 0 0 (- 1)) (Vector3 0 1 0), [(Error, msg)]))
   \<and> (\<exists>msg. SetPerspective (Vector3 0 0 (- 1)) (Vector3 0 1 0) 1 1 2 1
            (Camera_default (Vector3 0 0 (- 1)) (Vector3 0 1 0), [])
         = (Camera_default (Vector3 0 0 (- 1)) (Vector3 0 1 0), [(Error, msg)]))"
  using SetPerspective_invalid_noop [of 0 1 1 2 "Vector3 0 0 (- 1)" "Vector3 0 1 0"
      "Camera_default (Vector3 0 0 (- 1)) (Vector3 0 1 0)" "[]"]
    SetPerspective_invalid_noop [of PI 1 1 2 "Vector3 0 0 (- 1)" "Vector3 0 1 0"
      "Camera_default (Vector3 0 0 (- 1)) (Vector3 0 1 0)" "[]"]
    SetPerspective_invalid_noop [of 1 0 1 2 "Vector3 0 0 (- 1)" "Vector3 0 1 0"
      "Camera_default (Vector3 0 0 (- 1)) (Vector3 0 1 0)" "[]"]
    SetPerspective_invalid_noop [of 1 1 0 2 "Vector3 0 0 (- 1)" "Vector3 0 1 0"
      "Camera_default (Vector3 0 0 (- 1)) (Vector3 0 1 0)" "[]"]
    SetPerspective_invalid_noop [of 1 1 2 2 "Vector3 0 0 (- 1)" "Vector3 0 1 0"
      "Camera_default (Vector3 0 0 (- 1)) (Vector3 0 1 0)" "[]"]
    SetPerspective_invalid_noop [of 1 1 2 1 "Vector3 0 0 (- 1)" "Vector3 0 1 0"
      "Camera_default (Vector3 0 0 (- 1)) (Vector3 0 1 0)" "[]"]
  by simp


section \<open>Perspective and look-at matrices\<close>

text \<open>
  C9.  \<^verbatim>\<open>Perspective\<close> with a vertical field of view of 90 degrees (\<open>\<pi>/2\<close> radians),
  aspect 1, near 0.1 and far 100 has 1 in cells (0,0) and (1,1) and -1 in cell (3,2),
  which is the flat index 14.
\<close>

theorem Perspective_90:
  "mm (Perspective (pi / 2) 1 (1 / 10) 100) 0 0 = 1
   \<and> mm (Perspective (pi / 2) 1 (1 / 10) 100) 1 1 = 1
   \<and> mm (Perspective (pi / 2) 1 (1 / 10) 100) 3 2 = - 1
   \<and> m (Perspective (pi / 2) 1 (1 / 10) 100) 14 = - 1"
  by (simp add: Perspective_def Identity_def set_m_Matrix4 m_Matrix4 mm_def tan_45)

lemma LookAt_cells:
  "LookAt eye target up =
     (let z = Normalized3 (sub3 eye target);
          x = Normalized3 (Cross up z);
          y = Cross z x
      in Matrix4 (vx x) (vy x) (vz x) (- Dot3 x eye)
                 (vx y) (vy y) (vz y) (- Dot3 y eye)
                 (vx z) (vy z) (vz z) (- Dot3 z eye)
                 0 0 0 1)"
  by (simp add: LookAt_def Let_def Identity_def set_m_Matrix4)

text \<open>
  C7.  The matrix \<^verbatim>\<open>LookAt(eye, target, up)\<close> sends the eye point to the origin.  The
  first three rows are a vector and minus its dot product with the eye, so in exact
  arithmetic this holds for every eye, target and up, the scenario
  eye = (0,0,5), target = (0,0,0), up = (0,1,0) included.
\<close>

theorem LookAt_eye_to_origin:
  "TransformPoint (LookAt eye target up) eye = Vector3 0 0 0"
  by (simp add: TransformPoint_def LookAt_cells Let_def mulv_def m_Matrix4
      Vector4_of_def Homogenized_def NearZero_def EPSILON_def Dot3_def)

theorem LookAt_eye_to_origin_witness:
  "LookAt (Vector3 0 0 5) (Vector3 0 0 0) (Vector3 0 1 0)
     = Matrix4 1 0 0 0  0 1 0 0  0 0 1 (- 5)  0 0 0 1
   \<and> TransformPoint (LookAt (Vector3 0 0 5) (Vector3 0 0 0) (Vector3 0 1 0)) (Vector3 0 0 5)
     = Vector3 0 0 0"
proof -
  have "sqrt (5 * 5) = (5::real)" by (rule real_sqrt_unique) (simp_all add: power2_eq_square)
  then have z: "Normalized3 (sub3 (Vector3 0 0 5) (Vector3 0 0 0)) = Vector3 0 0 1"
    by (simp add: Normalized3_def Normalize3_def sub3_def Length3_def LengthSquared3_def
        NearZero_def EPSILON_def div3_def)
  have x: "Normalized3 (Vector3 1 0 0) = Vector3 1 0 0"
    by (simp add: Normalized3_def Normalize3_def Length3_def LengthSquared3_def
        NearZero_def EPSILON_def div3_def)
  have "LookAt (Vector3 0 0 5) (Vector3 0 0 0) (Vector3 0 1 0)
     = Matrix4 1 0 0 0  0 1 0 0  0 0 1 (- 5)  0 0 0 1"
    by (simp add: LookAt_cells z x Cross_def Dot3_def)
  with LookAt_eye_to_origin [of "Vector3 0 0 5" "Vector3 0 0 0" "Vector3 0 1 0"]
  show ?thesis by simp
qed

section \<open>Normalising a vector of near-zero length\<close>

lemma abs_le_sqrt3: "\<bar>x\<bar> \<le> sqrt (x * x + y * y + z * z)"
proof -
  have "x * x \<le> x * x + y * y + z * z" by simp
  then have "sqrt (x * x) \<le> sqrt (x * x + y * y + z * z)" by (rule real_sqrt_le_mono)
  then show ?thesis by simp
qed

lemma comp_le_Length3:
  "\<bar>vx v\<bar> \<le> Length3 v" "\<bar>vy v\<bar> \<le> Length3 v" "\<bar>vz v\<bar> \<le> Length3 v"
  using abs_le_sqrt3 [of "vx v" "vy v" "vz v"] abs_le_sqrt3 [of "vy v" "vx v" "vz v"]
    abs_le_sqrt3 [of "vz v" "vx v" "vy v"]
  by (simp_all add: Length3_def LengthSquared3_def add.commute add.left_commute)

lemma Length3_tiny: "Length3 (Vector3 (1 / 1000000) 0 0) = 1 / 1000000"
proof -
  have "sqrt (1 / 1000000 * (1 / 1000000)) = (1 / 1000000 :: real)"
    by (rule real_sqrt_unique) (simp_all add: power2_eq_square)
  then show ?thesis by (simp add: Length3_def LengthSquared3_def)
qed


text \<open>
  C6, as the code has it.  A Vector3 whose length is at most 1e-6 is returned by
  \<^verbatim>\<open>Normalized\<close> as it is: the early return of \<^verbatim>\<open>Normalize\<close> skips the division and
  writes nothing.  Each component of such a vector is within 1e-6 of zero, so the
  result compares equal to \<^verbatim>\<open>Vector3::Zero\<close> under the approximate \<^verbatim>\<open>operator==\<close>; the
  zero vector itself is returned as the zero vector.
\<close>

theorem Normalized3_near_zero:
  "Length3 v \<le> 1 / 1000000 \<Longrightarrow>
     Normalized3 v = v \<and> eq3 (Normalized3 v) Vector3_Zero
     \<and> Normalized3 Vector3_Zero = Vector3_Zero"
proof -
  assume small: "Length3 v \<le> 1 / 1000000"
  have nonneg: "0 \<le> Length3 v" by (simp add: Length3_def LengthSquared3_def)
  from small nonneg have same: "Normalized3 v = v"
    by (simp add: Normalized3_def Normalize3_def NearZero_def EPSILON_def)
  from small comp_le_Length3 [of v]
  have "\<bar>vx v\<bar> \<le> 1 / 1000000" "\<bar>vy v\<bar> \<le> 1 / 1000000" "\<bar>vz v\<bar> \<le> 1 / 1000000"
    by linarith+
  then have "eq3 v Vector3_Zero"
    by (auto simp: eq3_def Approximately_def Abs_def EPSILON_def Vector3_Zero_def)
  moreover have "Normalized3 Vector3_Zero = Vector3_Zero"
    by (simp add: Normalized3_def Normalize3_def NearZero_def EPSILON_def Vector3_Zero_def
        Length3_def LengthSquared3_def)
  ultimately show ?thesis using same by simp
qed


theorem Normalized3_near_zero_witness:
  "Length3 (Vector3 (1 / 1000000) 0 0) \<le> 1 / 1000000
   \<and> Normalized3 (Vector3 (1 / 1000000) 0 0) = Vector3 (1 / 1000000) 0 0
   \<and> eq3 (Normalized3 (Vector3 (1 / 1000000) 0 0)) Vector3_Zero"
proof -
  have len: "Length3 (Vector3 (1 / 1000000) 0 0) \<le> 1 / 1000000"
    by (simp add: Length3_tiny)
  from Normalized3_near_zero [OF len] len show ?thesis by blast
qed

theorem Normalized3_near_zero_counterexample:
  "Length3 (Vector3 (1 / 1000000) 0 0) \<le> 1 / 1000000
   \<and> Normalized3 (Vector3 (1 / 1000000) 0 0) \<noteq> Vector3 0 0 0"
  by (simp add: Normalized3_def Normalize3_def NearZero_def EPSILON_def Length3_tiny)


section \<open>Spherical interpolation at its end points\<close>

lemma Slerp_eq_arc:
  "Slerp a b t =
     (if qDot a b < 0 then Slerp_arc a (qscale b (- 1)) (- qDot a b) (Clamp t 0 1)
      else Slerp_arc a b (qDot a b) (Clamp t 0 1))"
  by (simp add: Slerp_def Slerp_arc_def Let_def)

lemma qLerp_0: "qLengthSquared a = 1 \<Longrightarrow> qLerp a b 0 = a"
  by (cases a; cases b) (simp add: qLerp_def Clamp_def qscale_def qadd_def qNormalized_unit)

lemma qLerp_1: "qLengthSquared b = 1 \<Longrightarrow> qLerp a b 1 = b"
  by (cases a; cases b) (simp add: qLerp_def Clamp_def qscale_def qadd_def qNormalized_unit)

lemma qLerp_same: "qLengthSquared a = 1 \<Longrightarrow> qLerp a a t = a"
proof -
  assume u: "qLengthSquared a = 1"
  have "qadd (qscale a (1 - Clamp t 0 1)) (qscale a (Clamp t 0 1)) = a"
    by (cases a) (simp add: qscale_def qadd_def algebra_simps)
  with u show ?thesis by (simp add: qLerp_def qNormalized_unit)
qed

lemma qLengthSquared_neg: "qLengthSquared (qscale b (- 1)) = qLengthSquared b"
  by (simp add: qLengthSquared_def qscale_def)

lemma sin_arccos_ratio:
  assumes "0 \<le> c" "c \<le> 1" "sqrt (1 - c * c) \<noteq> 0"
  shows "sin (arccos c) / sqrt (1 - c * c) = 1"
  using assms sin_arccos [of c] by (simp add: power2_eq_square)

lemma Slerp_arc_0:
  assumes "qLengthSquared a = 1" "0 \<le> c"
  shows "Slerp_arc a b2 c 0 = a"
proof (cases "c > 0.9999 \<or> NearZero (sqrt (1 - c * c)) EPSILON")
  case True
  with assms show ?thesis by (auto simp: Slerp_arc_def qLerp_0)
next
  case False
  then have "c \<le> 1" and "sqrt (1 - c * c) \<noteq> 0" by (auto simp: NearZero_def EPSILON_def)
  with assms have r: "sin (arccos c) / sqrt (1 - c * c) = 1"
    by (intro sin_arccos_ratio)
  have q: "qadd (qscale a 1) (qscale b2 0) = a"
    by (cases a; cases b2) (simp add: qscale_def qadd_def)
  from False have "Slerp_arc a b2 c 0 =
      qNormalized (qadd (qscale a (sin (arccos c) / sqrt (1 - c * c))) (qscale b2 0))"
    by (simp add: Slerp_arc_def Let_def)
  also have "\<dots> = a" unfolding r q using assms by (simp add: qNormalized_unit)
  finally show ?thesis .
qed

lemma Slerp_arc_1:
  assumes "qLengthSquared b2 = 1" "0 \<le> c"
  shows "Slerp_arc a b2 c 1 = b2"
proof (cases "c > 0.9999 \<or> NearZero (sqrt (1 - c * c)) EPSILON")
  case True
  with assms show ?thesis by (auto simp: Slerp_arc_def qLerp_1)
next
  case False
  then have "c \<le> 1" and "sqrt (1 - c * c) \<noteq> 0" by (auto simp: NearZero_def EPSILON_def)
  with assms have r: "sin (arccos c) / sqrt (1 - c * c) = 1"
    by (intro sin_arccos_ratio)
  have q: "qadd (qscale a 0) (qscale b2 1) = b2"
    by (cases a; cases b2) (simp add: qscale_def qadd_def)
  from False have "Slerp_arc a b2 c 1 =
      qNormalized (qadd (qscale a 0) (qscale b2 (sin (arccos c) / sqrt (1 - c * c))))"
    by (simp add: Slerp_arc_def Let_def)
  also have "\<dots> = b2" unfolding r q using assms by (simp add: qNormalized_unit)
  finally show ?thesis .
qed

lemma Slerp_same: "qLengthSquared a = 1 \<Longrightarrow> Slerp a a t = a"
proof -
  assume u: "qLengthSquared a = 1"
  then have "qDot a a = 1" by (simp add: qDot_def qLengthSquared_def)
  with u show ?thesis by (simp add: Slerp_eq_arc Slerp_arc_def qLerp_same)
qed

lemma Slerp_0: "qLengthSquared a = 1 \<Longrightarrow> Slerp a b 0 = a"
  by (simp add: Slerp_eq_arc Clamp_def Slerp_arc_0)

lemma Slerp_1:
  "qLengthSquared b = 1 \<Longrightarrow> Slerp a b 1 = (if qDot a b < 0 then qscale b (- 1) else b)"
  by (simp add: Slerp_eq_arc Clamp_def Slerp_arc_1 qLengthSquared_neg)

lemma qLength_unit: "qLength q = 1 \<longleftrightarrow> qLengthSquared q = 1"
  by (simp add: qLength_def)

text \<open>
  C8, as the code has it.  For unit quaternions \<open>a\<close> and \<open>b\<close> and every \<open>t\<close>:
  \<^verbatim>\<open>Slerp(a, a, t)\<close> is \<open>a\<close>; \<^verbatim>\<open>Slerp(a, b, 0)\<close> is \<open>a\<close>; and \<^verbatim>\<open>Slerp(a, b, 1)\<close> is \<open>b\<close>
  when the dot product of \<open>a\<close> and \<open>b\<close> is not negative, and \<open>-b\<close>, the same rotation
  reached along the shorter arc, when it is negative.
\<close>

theorem Slerp_endpoints:
  "qLength a = 1 \<Longrightarrow> qLength b = 1 \<Longrightarrow>
     Slerp a a t = a \<and> Slerp a b 0 = a
     \<and> Slerp a b 1 = (if qDot a b < 0 then qscale b (- 1) else b)"
  by (simp add: qLength_unit Slerp_same Slerp_0 Slerp_1)

theorem Slerp_endpoints_witness:
  "qLength (Quaternion 0 0 0 1) = 1 \<and> qLength (Quaternion 0 0 0 (- 1)) = 1
   \<and> qLength (Quaternion 1 0 0 0) = 1
   \<and> Slerp (Quaternion 0 0 0 1) (Quaternion 0 0 0 1) (1 / 3) = Quaternion 0 0 0 1
   \<and> Slerp (Quaternion 0 0 0 1) (Quaternion 1 0 0 0) 0 = Quaternion 0 0 0 1
   \<and> Slerp (Quaternion 0 0 0 1) (Quaternion 1 0 0 0) 1 = Quaternion 1 0 0 0
   \<and> Slerp (Quaternion 0 0 0 1) (Quaternion 0 0 0 (- 1)) 1 = Quaternion 0 0 0 1"
proof -
  have u: "qLength (Quaternion 0 0 0 1) = 1" "qLength (Quaternion 0 0 0 (- 1)) = 1"
    "qLength (Quaternion 1 0 0 0) = 1"
    by (simp_all add: qLength_def qLengthSquared_def)
  from Slerp_endpoints [OF u(1) u(3), of "1 / 3"] Slerp_endpoints [OF u(1) u(2), of 0] u
  show ?thesis by (simp add: qDot_def qscale_def)
qed

theorem Slerp_endpoints_counterexample:
  "qLength (Quaternion 0 0 0 1) = 1 \<and> qLength (Quaternion 0 0 0 (- 1)) = 1
   \<and> Slerp (Quaternion 0 0 0 1) (Quaternion 0 0 0 (- 1)) 1 = Quaternion 0 0 0 1
   \<and> \<not> qeq (Slerp (Quaternion 0 0 0 1) (Quaternion 0 0 0 (- 1)) 1) (Quaternion 0 0 0 (- 1))"
proof -
  have "qLengthSquared (Quaternion 0 0 0 (- 1)) = 1" by (simp add: qLengthSquared_def)
  from Slerp_1 [OF this, of "Quaternion 0 0 0 1"]
  have "Slerp (Quaternion 0 0 0 1) (Quaternion 0 0 0 (- 1)) 1 = Quaternion 0 0 0 1"
    by (simp add: qDot_def qscale_def)
  then show ?thesis
    by (simp add: qLength_def qLengthSquared_def qeq_def Approximately_def Abs_def EPSILON_def)
qed


section \<open>From a quaternion to its matrix and back\<close>

lemma ToMatrix_cells:
  "ToMatrix (Quaternion x y z w) =
     Matrix4 (1 - 2 * (y * y + z * z)) (2 * (x * y - z * w)) (2 * (x * z + y * w)) 0
             (2 * (x * y + z * w)) (1 - 2 * (x * x + z * z)) (2 * (y * z - x * w)) 0
             (2 * (x * z - y * w)) (2 * (y * z + x * w)) (1 - 2 * (x * x + y * y)) 0
             0 0 0 1"
  by (simp add: ToMatrix_def Let_def Identity_def set_m_Matrix4)

text \<open>The four branches of \<^verbatim>\<open>FromRotationMatrix\<close> on a matrix given by its cells.\<close>

lemma FromRotationMatrix_cells:
  "FromRotationMatrix (Matrix4 m00 m01 m02 m03 m10 m11 m12 m13 m20 m21 m22 m23 m30 m31 m32 m33) =
     qNormalized
       (if m00 + m11 + m22 > 0 then
          Quaternion ((m21 - m12) * (0.5 / sqrt (m00 + m11 + m22 + 1)))
                     ((m02 - m20) * (0.5 / sqrt (m00 + m11 + m22 + 1)))
                     ((m10 - m01) * (0.5 / sqrt (m00 + m11 + m22 + 1)))
                     (0.25 / (0.5 / sqrt (m00 + m11 + m22 + 1)))
        else if m00 > m11 \<and> m00 > m22 then
          Quaternion (0.25 * (2 * sqrt (1 + m00 - m11 - m22)))
                     ((m01 + m10) / (2 * sqrt (1 + m00 - m11 - m22)))
                     ((m02 + m20) / (2 * sqrt (1 + m00 - m11 - m22)))
                     ((m21 - m12) / (2 * sqrt (1 + m00 - m11 - m22)))
        else if m11 > m22 then
          Quaternion ((m01 + m10) / (2 * sqrt (1 + m11 - m00 - m22)))
                     (0.25 * (2 * sqrt (1 + m11 - m00 - m22)))
                     ((m12 + m21) / (2 * sqrt (1 + m11 - m00 - m22)))
                     ((m02 - m20) / (2 * sqrt (1 + m11 - m00 - m22)))
        else
          Quaternion ((m02 + m20) / (2 * sqrt (1 + m22 - m00 - m11)))
                     ((m12 + m21) / (2 * sqrt (1 + m22 - m00 - m11)))
                     (0.25 * (2 * sqrt (1 + m22 - m00 - m11)))
                     ((m10 - m01) / (2 * sqrt (1 + m22 - m00 - m11))))"
  by (simp add: FromRotationMatrix_def Let_def mm_Matrix4)


lemma signed_quaternion:
  assumes u: "x * x + y * y + z * z + w * w = 1" and r: "r \<noteq> 0"
    and raw: "raw = Quaternion (x * r / \<bar>r\<bar>) (y * r / \<bar>r\<bar>) (z * r / \<bar>r\<bar>) (w * r / \<bar>r\<bar>)"
  shows "qNormalized raw = Quaternion x y z w \<or> qNormalized raw = qscale (Quaternion x y z w) (- 1)"
proof (cases "r > 0")
  case True
  with raw have "raw = Quaternion x y z w" by simp
  with u show ?thesis by (simp add: qNormalized_unit qLengthSquared_def)
next
  case False
  with r have "r < 0" by simp
  with raw have "raw = qscale (Quaternion x y z w) (- 1)" by (simp add: qscale_def)
  with u show ?thesis by (simp add: qNormalized_unit qLengthSquared_def qscale_def)
qed

lemma FromRotationMatrix_ToMatrix:
  assumes u: "x * x + y * y + z * z + w * w = 1"
  shows "FromRotationMatrix (ToMatrix (Quaternion x y z w)) = Quaternion x y z w
       \<or> FromRotationMatrix (ToMatrix (Quaternion x y z w)) = qscale (Quaternion x y z w) (- 1)"
proof -
  let ?m00 = "1 - 2 * (y * y + z * z)" and ?m11 = "1 - 2 * (x * x + z * z)"
    and ?m22 = "1 - 2 * (x * x + y * y)"
  let ?m01 = "2 * (x * y - z * w)" and ?m10 = "2 * (x * y + z * w)"
  let ?m02 = "2 * (x * z + y * w)" and ?m20 = "2 * (x * z - y * w)"
  let ?m12 = "2 * (y * z - x * w)" and ?m21 = "2 * (y * z + x * w)"
  have tr: "?m00 + ?m11 + ?m22 + 1 = (2 * w)\<^sup>2" using u by algebra
  have trpos: "(?m00 + ?m11 + ?m22 > 0) = (4 * w * w > 1)" using u by auto
  have dx: "1 + ?m00 - ?m11 - ?m22 = (2 * x)\<^sup>2" by algebra
  have dy: "1 + ?m11 - ?m00 - ?m22 = (2 * y)\<^sup>2" by algebra
  have dz: "1 + ?m22 - ?m00 - ?m11 = (2 * z)\<^sup>2" by algebra
  have cmp: "(?m00 > ?m11) = (x * x > y * y)" "(?m00 > ?m22) = (x * x > z * z)"
    "(?m11 > ?m22) = (y * y > z * z)" by auto
  have df: "?m21 - ?m12 = 4 * x * w" "?m02 - ?m20 = 4 * y * w" "?m10 - ?m01 = 4 * z * w"
    "?m01 + ?m10 = 4 * x * y" "?m02 + ?m20 = 4 * x * z" "?m12 + ?m21 = 4 * y * z"
    by algebra+
  have E: "FromRotationMatrix (ToMatrix (Quaternion x y z w)) =
     qNormalized
       (if 4 * w * w > 1 then
          Quaternion (4 * x * w * (0.5 / \<bar>2 * w\<bar>)) (4 * y * w * (0.5 / \<bar>2 * w\<bar>))
                     (4 * z * w * (0.5 / \<bar>2 * w\<bar>)) (0.25 / (0.5 / \<bar>2 * w\<bar>))
        else if x * x > y * y \<and> x * x > z * z then
          Quaternion (0.25 * (2 * \<bar>2 * x\<bar>)) (4 * x * y / (2 * \<bar>2 * x\<bar>))
                     (4 * x * z / (2 * \<bar>2 * x\<bar>)) (4 * x * w / (2 * \<bar>2 * x\<bar>))
        else if y * y > z * z then
          Quaternion (4 * x * y / (2 * \<bar>2 * y\<bar>)) (0.25 * (2 * \<bar>2 * y\<bar>))
                     (4 * y * z / (2 * \<bar>2 * y\<bar>)) (4 * y * w / (2 * \<bar>2 * y\<bar>))
        else
          Quaternion (4 * x * z / (2 * \<bar>2 * z\<bar>)) (4 * y * z / (2 * \<bar>2 * z\<bar>))
                     (0.25 * (2 * \<bar>2 * z\<bar>)) (4 * z * w / (2 * \<bar>2 * z\<bar>)))"
    unfolding ToMatrix_cells FromRotationMatrix_cells tr trpos dx dy dz cmp df real_sqrt_abs
    by (rule refl)
  consider (tw) "4 * w * w > 1"
    | (tx) "\<not> 4 * w * w > 1" "x * x > y * y \<and> x * x > z * z"
    | (ty) "\<not> 4 * w * w > 1" "\<not> (x * x > y * y \<and> x * x > z * z)" "y * y > z * z"
    | (tz) "\<not> 4 * w * w > 1" "\<not> (x * x > y * y \<and> x * x > z * z)" "\<not> y * y > z * z"
    by blast
  then show ?thesis
  proof cases
    case tw
    then have nz: "w \<noteq> 0" by auto
    then have "Quaternion (4 * x * w * (0.5 / \<bar>2 * w\<bar>)) (4 * y * w * (0.5 / \<bar>2 * w\<bar>))
                 (4 * z * w * (0.5 / \<bar>2 * w\<bar>)) (0.25 / (0.5 / \<bar>2 * w\<bar>))
             = Quaternion (x * w / \<bar>w\<bar>) (y * w / \<bar>w\<bar>) (z * w / \<bar>w\<bar>) (w * w / \<bar>w\<bar>)"
      by (simp add: abs_mult field_simps)
    from signed_quaternion [OF u nz this] tw show ?thesis unfolding E by simp
  next
    case tx
    then have nz: "x \<noteq> 0" by auto
    then have "Quaternion (0.25 * (2 * \<bar>2 * x\<bar>)) (4 * x * y / (2 * \<bar>2 * x\<bar>))
                     (4 * x * z / (2 * \<bar>2 * x\<bar>)) (4 * x * w / (2 * \<bar>2 * x\<bar>))
             = Quaternion (x * x / \<bar>x\<bar>) (y * x / \<bar>x\<bar>) (z * x / \<bar>x\<bar>) (w * x / \<bar>x\<bar>)"
      by (simp add: abs_mult field_simps)
    from signed_quaternion [OF u nz this] tx show ?thesis unfolding E by simp
  next
    case ty
    then have nz: "y \<noteq> 0" by auto
    then have "Quaternion (4 * x * y / (2 * \<bar>2 * y\<bar>)) (0.25 * (2 * \<bar>2 * y\<bar>))
                     (4 * y * z / (2 * \<bar>2 * y\<bar>)) (4 * y * w / (2 * \<bar>2 * y\<bar>))
             = Quaternion (x * y / \<bar>y\<bar>) (y * y / \<bar>y\<bar>) (z * y / \<bar>y\<bar>) (w * y / \<bar>y\<bar>)"
      by (simp add: abs_mult field_simps)
    from signed_quaternion [OF u nz this] ty show ?thesis unfolding E by simp
  next
    case tz
    have nz: "z \<noteq> 0"
    proof
      assume z0: "z = 0"
      with tz have "y = 0" by auto
      with z0 tz have "x = 0" by auto
      with \<open>y = 0\<close> z0 u have "w * w = 1" by simp
      with tz show False by simp
    qed
    then have "Quaternion (4 * x * z / (2 * \<bar>2 * z\<bar>)) (4 * y * z / (2 * \<bar>2 * z\<bar>))
                     (0.25 * (2 * \<bar>2 * z\<bar>)) (4 * z * w / (2 * \<bar>2 * z\<bar>))
             = Quaternion (x * z / \<bar>z\<bar>) (y * z / \<bar>z\<bar>) (z * z / \<bar>z\<bar>) (w * z / \<bar>z\<bar>)"
      by (simp add: abs_mult field_simps)
    from signed_quaternion [OF u nz this] tz show ?thesis unfolding E by auto
  qed
qed

lemma qeq_refl: "qeq q q"
  by (simp add: qeq_def Approximately_def Abs_def EPSILON_def)

lemma FromAxisAngle_unit:
  assumes "Length3 axis = 1"
  shows "FromAxisAngle axis angle =
           Quaternion (vx axis * sin (angle * 0.5)) (vy axis * sin (angle * 0.5))
                      (vz axis * sin (angle * 0.5)) (cos (angle * 0.5))"
    and "qLengthSquared (FromAxisAngle axis angle) = 1"
proof -
  from assms have n: "Normalized3 axis = axis"
    by (cases axis) (simp add: Normalized3_def Normalize3_def NearZero_def EPSILON_def div3_def)
  then show eq: "FromAxisAngle axis angle =
           Quaternion (vx axis * sin (angle * 0.5)) (vy axis * sin (angle * 0.5))
                      (vz axis * sin (angle * 0.5)) (cos (angle * 0.5))"
    by (simp add: FromAxisAngle_def Let_def)
  from assms have l: "vx axis * vx axis + vy axis * vy axis + vz axis * vz axis = 1"
    by (simp add: Length3_def LengthSquared3_def)
  have "(vx axis * vx axis + vy axis * vy axis + vz axis * vz axis) * (sin (angle * 0.5))\<^sup>2
          + (cos (angle * 0.5))\<^sup>2 = 1"
    unfolding l by simp
  then show "qLengthSquared (FromAxisAngle axis angle) = 1"
    unfolding eq by (simp add: qLengthSquared_def power2_eq_square algebra_simps)
qed

lemma Length3_axes:
  "Length3 (Vector3 1 0 0) = 1" "Length3 (Vector3 0 1 0) = 1" "Length3 (Vector3 0 0 1) = 1"
  by (simp_all add: Length3_def LengthSquared3_def)

text \<open>
  C3.  For a unit axis and any angle, converting \<^verbatim>\<open>FromAxisAngle(axis, angle)\<close> to a matrix
  and back with \<^verbatim>\<open>FromRotationMatrix\<close> gives the quaternion or its negative, whichever of
  the four branches is taken; in particular the result compares equal, under the
  approximate \<^verbatim>\<open>operator==\<close>, to one of the two.
\<close>

theorem axis_angle_roundtrip:
  "Length3 axis = 1 \<Longrightarrow>
     (FromRotationMatrix (ToMatrix (FromAxisAngle axis angle)) = FromAxisAngle axis angle
      \<or> FromRotationMatrix (ToMatrix (FromAxisAngle axis angle))
          = qscale (FromAxisAngle axis angle) (- 1))
     \<and> (qeq (FromRotationMatrix (ToMatrix (FromAxisAngle axis angle))) (FromAxisAngle axis angle)
      \<or> qeq (FromRotationMatrix (ToMatrix (FromAxisAngle axis angle)))
           (qscale (FromAxisAngle axis angle) (- 1)))"
proof -
  assume "Length3 axis = 1"
  then have u: "qLengthSquared (FromAxisAngle axis angle) = 1" by (rule FromAxisAngle_unit)
  obtain x y z w where q: "FromAxisAngle axis angle = Quaternion x y z w"
    by (cases "FromAxisAngle axis angle")
  from u have "x * x + y * y + z * z + w * w = 1" by (simp add: q qLengthSquared_def)
  from FromRotationMatrix_ToMatrix [OF this] show ?thesis
    unfolding q using qeq_refl by metis
qed

theorem axis_angle_roundtrip_witness:
  "Length3 (Vector3 1 0 0) = 1 \<and> Length3 (Vector3 0 1 0) = 1 \<and> Length3 (Vector3 0 0 1) = 1
   \<and> FromAxisAngle (Vector3 1 0 0) 0 = Quaternion 0 0 0 1
   \<and> FromRotationMatrix (ToMatrix (Quaternion 0 0 0 1)) = Quaternion 0 0 0 1
   \<and> FromAxisAngle (Vector3 1 0 0) pi = Quaternion 1 0 0 0
   \<and> FromRotationMatrix (ToMatrix (Quaternion 1 0 0 0)) = Quaternion 1 0 0 0
   \<and> FromAxisAngle (Vector3 0 1 0) pi = Quaternion 0 1 0 0
   \<and> FromRotationMatrix (ToMatrix (Quaternion 0 1 0 0)) = Quaternion 0 1 0 0
   \<and> FromAxisAngle (Vector3 0 0 1) pi = Quaternion 0 0 1 0
   \<and> FromRotationMatrix (ToMatrix (Quaternion 0 0 1 0)) = Quaternion 0 0 1 0
   \<and> FromAxisAngle (Vector3 1 0 0) (2 * pi) = Quaternion 0 0 0 (- 1)
   \<and> FromRotationMatrix (ToMatrix (Quaternion 0 0 0 (- 1))) = Quaternion 0 0 0 1
   \<and> (FromRotationMatrix (ToMatrix (FromAxisAngle (Vector3 1 0 0) (2 * pi)))
         = FromAxisAngle (Vector3 1 0 0) (2 * pi)
       \<or> FromRotationMatrix (ToMatrix (FromAxisAngle (Vector3 1 0 0) (2 * pi)))
         = qscale (FromAxisAngle (Vector3 1 0 0) (2 * pi)) (- 1))"
proof -
  have a: "FromAxisAngle (Vector3 1 0 0) 0 = Quaternion 0 0 0 1"
    "FromAxisAngle (Vector3 1 0 0) pi = Quaternion 1 0 0 0"
    "FromAxisAngle (Vector3 0 1 0) pi = Quaternion 0 1 0 0"
    "FromAxisAngle (Vector3 0 0 1) pi = Quaternion 0 0 1 0"
    "FromAxisAngle (Vector3 1 0 0) (2 * pi) = Quaternion 0 0 0 (- 1)"
    by (simp_all add: FromAxisAngle_unit(1) Length3_axes)
  have r: "FromRotationMatrix (ToMatrix (Quaternion 0 0 0 1)) = Quaternion 0 0 0 1"
    "FromRotationMatrix (ToMatrix (Quaternion 1 0 0 0)) = Quaternion 1 0 0 0"
    "FromRotationMatrix (ToMatrix (Quaternion 0 1 0 0)) = Quaternion 0 1 0 0"
    "FromRotationMatrix (ToMatrix (Quaternion 0 0 1 0)) = Quaternion 0 0 1 0"
    "FromRotationMatrix (ToMatrix (Quaternion 0 0 0 (- 1))) = Quaternion 0 0 0 1"
    by (simp_all add: ToMatrix_cells FromRotationMatrix_cells qNormalized_unit qLengthSquared_def)
  from axis_angle_roundtrip [OF Length3_axes(1), of "2 * pi"] a r Length3_axes
  show ?thesis by simp
qed


section \<open>Scene: the name index follows the object list\<close>

lemma nth_erase_at:
  "i < length xs - 1 \<Longrightarrow> erase_at xs k ! i = (if i < k then xs ! i else xs ! Suc i)"
  by (auto simp: erase_at_def nth_append min_def)

lemma length_erase_at: "k < length xs \<Longrightarrow> length (erase_at xs k) = length xs - 1"
  by (auto simp: erase_at_def)

lemma distinct_erase_at: "distinct xs \<Longrightarrow> k < length xs \<Longrightarrow> distinct (erase_at xs k)"
proof -
  assume d: "distinct xs" and k: "k < length xs"
  have xs: "xs = take k xs @ xs ! k # drop (Suc k) xs"
    using k by (simp add: id_take_nth_drop)
  from d have "distinct (take k xs @ xs ! k # drop (Suc k) xs)" using xs by simp
  then show ?thesis by (auto simp: erase_at_def)
qed

lemma map_erase_at: "map f (erase_at xs k) = erase_at (map f xs) k"
  by (simp add: erase_at_def take_map drop_map)

lemma erase_at_filter:
  assumes "distinct (map f xs)" "k < length xs"
  shows "erase_at xs k = filter (\<lambda>x. f x \<noteq> f (xs ! k)) xs"
proof -
  have xs: "xs = take k xs @ xs ! k # drop (Suc k) xs"
    using assms(2) by (simp add: id_take_nth_drop)
  from assms(1) have "distinct (map f (take k xs @ xs ! k # drop (Suc k) xs))" using xs by simp
  then have "f (xs ! k) \<notin> f ` set (take k xs)" "f (xs ! k) \<notin> f ` set (drop (Suc k) xs)"
    by auto
  then have a: "\<forall>x\<in>set (take k xs). f x \<noteq> f (xs ! k)"
    and b: "\<forall>x\<in>set (drop (Suc k) xs). f x \<noteq> f (xs ! k)"
    by (metis image_eqI)+
  have "filter (\<lambda>x. f x \<noteq> f (xs ! k)) xs
        = filter (\<lambda>x. f x \<noteq> f (xs ! k)) (take k xs @ xs ! k # drop (Suc k) xs)"
    using xs by simp
  also have "\<dots> = take k xs @ drop (Suc k) xs" using a b by simp
  finally show ?thesis by (simp add: erase_at_def)
qed


lemma consistent_index_bound:
  assumes "index_consistent s" "m_ObjectIndex s nm = Some k"
  shows "k < length (m_Objects s)" "name (m_Objects s ! k) = nm"
proof -
  from assms have "nm \<in> name ` set (m_Objects s)" by (auto simp: index_consistent_def)
  then obtain j where j: "j < length (m_Objects s)" "name (m_Objects s ! j) = nm"
    by (auto simp: in_set_conv_nth)
  with assms have "k = j" by (auto simp: index_consistent_def)
  with j show "k < length (m_Objects s)" "name (m_Objects s ! k) = nm" by simp_all
qed

lemma AddObject_duplicate:
  "m_ObjectIndex s (name obj) \<noteq> None \<Longrightarrow> fst (AddObject obj (s, lg)) = s"
  by (simp add: AddObject_def)

lemma AddObject_consistent:
  assumes "index_consistent s"
  shows "index_consistent (fst (AddObject obj (s, lg)))"
proof (cases "m_ObjectIndex s (name obj) = None")
  case False
  with assms show ?thesis by (simp add: AddObject_def)
next
  case True
  with assms have fresh: "name obj \<notin> name ` set (m_Objects s)"
    by (auto simp: index_consistent_def)
  from True have eq: "fst (AddObject obj (s, lg)) =
      s\<lparr>m_ObjectIndex := (m_ObjectIndex s)(name obj \<mapsto> length (m_Objects s)),
        m_Objects := m_Objects s @ [obj]\<rparr>"
    by (simp add: AddObject_def)
  have "\<forall>i<length (m_Objects s). name (m_Objects s ! i) \<noteq> name obj"
    using fresh by (metis image_eqI nth_mem)
  with assms fresh show ?thesis unfolding eq
    by (auto simp: index_consistent_def nth_append less_Suc_eq)
qed


text \<open>The scene that \<^verbatim>\<open>RemoveObject\<close> builds when the name is indexed at position \<open>k\<close>.\<close>

lemma RemoveObject_present:
  assumes "m_ObjectIndex s nm = Some k" "k < length (m_Objects s)"
  shows "RemoveObject nm (s, lg) =
     Inr (s\<lparr>m_Objects := erase_at (m_Objects s) k,
            m_ObjectIndex :=
              (\<lambda>n. map_option (\<lambda>second. if second > k then second - 1 else second)
                     (((m_ObjectIndex s)(nm := None)) n))\<rparr>,
          lg @ [(Info, [Str ''Removed object from scene: '', Str nm])])"
  using assms by (simp add: RemoveObject_def)

lemma RemoveObject_absent:
  "m_ObjectIndex s nm = None \<Longrightarrow>
     RemoveObject nm (s, lg) = Inr (s, lg @ [(Warn, [Str ''Object not found in scene: '', Str nm])])"
  by (simp add: RemoveObject_def)

lemma removed_consistent:
  assumes c: "index_consistent s" and k: "m_ObjectIndex s nm = Some k"
  defines "s' \<equiv> s\<lparr>m_Objects := erase_at (m_Objects s) k,
            m_ObjectIndex :=
              (\<lambda>n. map_option (\<lambda>second. if second > k then second - 1 else second)
                     (((m_ObjectIndex s)(nm := None)) n))\<rparr>"
  shows "index_consistent s'" and "m_ObjectIndex s' nm = None"
    and "m_Objects s' = filter (\<lambda>obj. name obj \<noteq> nm) (m_Objects s)"
proof -
  let ?xs = "m_Objects s"
  from consistent_index_bound [OF c k] have kl: "k < length ?xs" and kn: "name (?xs ! k) = nm" .
  from c have d: "distinct (map name ?xs)" by (simp add: index_consistent_def)
  show none: "m_ObjectIndex s' nm = None" by (simp add: s'_def)
  from erase_at_filter [OF d kl] kn
  show filt: "m_Objects s' = filter (\<lambda>obj. name obj \<noteq> nm) ?xs" by (simp add: s'_def)
  have d': "distinct (map name (m_Objects s'))"
    using distinct_erase_at [OF d, of k] kl by (simp add: s'_def map_erase_at)
  have "dom (m_ObjectIndex s') = dom (m_ObjectIndex s) - {nm}"
    by (auto simp: s'_def dom_def)
  also have "\<dots> = name ` set ?xs - {nm}" using c by (simp add: index_consistent_def)
  also have "\<dots> = name ` set (m_Objects s')" unfolding filt by auto
  finally have dom': "dom (m_ObjectIndex s') = name ` set (m_Objects s')" .
  have pos: "m_ObjectIndex s' (name (m_Objects s' ! i)) = Some i" if i: "i < length (m_Objects s')" for i
  proof -
    from i kl have il: "i < length ?xs - 1" by (simp add: s'_def length_erase_at)
    define j where "j = (if i < k then i else Suc i)"
    from il have jl: "j < length ?xs" and jk: "j \<noteq> k" by (auto simp: j_def)
    from il have obj: "m_Objects s' ! i = ?xs ! j" by (simp add: s'_def nth_erase_at j_def)
    from d jl kl jk have "map name ?xs ! j \<noteq> map name ?xs ! k"
      by (simp add: nth_eq_iff_index_eq del: nth_map)
    with jl kl kn have ne: "name (?xs ! j) \<noteq> nm" by simp
    from c jl have "m_ObjectIndex s (name (?xs ! j)) = Some j" by (simp add: index_consistent_def)
    with ne show ?thesis unfolding obj by (auto simp: s'_def j_def)
  qed
  from d' dom' pos show "index_consistent s'" by (simp add: index_consistent_def)
qed

lemma FindObject_consistent:
  assumes "index_consistent s" "i < length (m_Objects s)"
  shows "FindObject s (name (m_Objects s ! i)) = Inr (Some (m_Objects s ! i))"
  using assms by (simp add: FindObject_def index_consistent_def)

lemma FindObject_absent: "m_ObjectIndex s nm = None \<Longrightarrow> FindObject s nm = Inr None"
  by (simp add: FindObject_def)

lemma run_consistent:
  "index_consistent s \<Longrightarrow> \<exists>s' lg'. run ops (s, lg) = Inr (s', lg') \<and> index_consistent s'"
proof (induction ops arbitrary: s lg)
  case Nil
  then show ?case by simp
next
  case (Cons op ops)
  show ?case
  proof (cases op)
    case (Add obj)
    obtain s1 lg1 where a: "AddObject obj (s, lg) = (s1, lg1)" by (cases "AddObject obj (s, lg)")
    with AddObject_consistent [OF Cons.prems, of obj lg] have "index_consistent s1" by simp
    from Cons.IH [OF this, of lg1] a Add show ?thesis by simp
  next
    case (Remove nm)
    show ?thesis
    proof (cases "m_ObjectIndex s nm")
      case None
      from Cons.IH [OF Cons.prems] Remove RemoveObject_absent [OF None] show ?thesis by simp
    next
      case (Some k)
      from consistent_index_bound(1) [OF Cons.prems Some] have kl: "k < length (m_Objects s)" .
      from Cons.IH [OF removed_consistent(1) [OF Cons.prems Some]] Remove
        RemoveObject_present [OF Some kl]
      show ?thesis by simp
    qed
  qed
qed

lemma positions_consistent:
  assumes "index_consistent s"
  shows "\<forall>i<length (m_Objects s). m_ObjectIndex s (name (m_Objects s ! i)) = Some i
           \<and> FindObject s (name (m_Objects s ! i)) = Inr (Some (m_Objects s ! i))"
  using assms FindObject_consistent [OF assms] by (simp add: index_consistent_def)

lemma remove_from_consistent:
  assumes c: "index_consistent s"
  shows "\<exists>s' lg'. RemoveObject nm (s, lg) = Inr (s', lg')
           \<and> index_consistent s' \<and> FindObject s' nm = Inr None
           \<and> m_Objects s' = filter (\<lambda>obj. name obj \<noteq> nm) (m_Objects s)
           \<and> (\<forall>i<length (m_Objects s'). m_ObjectIndex s' (name (m_Objects s' ! i)) = Some i
                 \<and> FindObject s' (name (m_Objects s' ! i)) = Inr (Some (m_Objects s' ! i)))"
proof (cases "m_ObjectIndex s nm")
  case None
  with c have "nm \<notin> name ` set (m_Objects s)" by (auto simp: index_consistent_def)
  then have "filter (\<lambda>obj. name obj \<noteq> nm) (m_Objects s) = m_Objects s"
    by (auto simp: filter_id_conv)
  with RemoveObject_absent [OF None, of lg] FindObject_absent [OF None] c
    positions_consistent [OF c]
  show ?thesis by simp
next
  case (Some k)
  from consistent_index_bound(1) [OF c Some] have kl: "k < length (m_Objects s)" .
  note r = removed_consistent [OF c Some]
  from RemoveObject_present [OF Some kl, of lg] r FindObject_absent [OF r(2)]
    positions_consistent [OF r(1)]
  show ?thesis by simp
qed

text \<open>
  C5.  Starting from a scene without objects, after every sequence of \<^verbatim>\<open>AddObject\<close> and
  \<^verbatim>\<open>RemoveObject\<close> calls (none of which reaches past the end of the list) the name index
  maps exactly the stored names, each to the position of the object bearing it.  In
  such a scene \<^verbatim>\<open>AddObject\<close> with a name already present changes neither list nor
  index; \<^verbatim>\<open>RemoveObject\<close> leaves the objects with other names in their order, the
  removed name is no longer found, and every remaining object is found, by its name,
  at its new position.
\<close>

theorem scene_index_consistent:
  "m_Objects s0 = [] \<Longrightarrow> m_ObjectIndex s0 = Map.empty \<Longrightarrow>
     \<exists>s lg'. run ops (s0, lg) = Inr (s, lg') \<and> index_consistent s
       \<and> (\<forall>obj::SceneObject. name obj \<in> name ` set (m_Objects s) \<longrightarrow> fst (AddObject obj (s, lg')) = s)
       \<and> (\<forall>nm. \<exists>s' lg''. RemoveObject nm (s, lg') = Inr (s', lg'')
             \<and> index_consistent s' \<and> FindObject s' nm = Inr None
             \<and> m_Objects s' = filter (\<lambda>obj. name obj \<noteq> nm) (m_Objects s)
             \<and> (\<forall>i<length (m_Objects s').
                   m_ObjectIndex s' (name (m_Objects s' ! i)) = Some i
                   \<and> FindObject s' (name (m_Objects s' ! i)) = Inr (Some (m_Objects s' ! i))))"
proof -
  assume "m_Objects s0 = []" and "m_ObjectIndex s0 = Map.empty"
  then have "index_consistent s0" by (simp add: index_consistent_def)
  from run_consistent [OF this, of ops lg]
  obtain s lg' where r: "run ops (s0, lg) = Inr (s, lg')" and c: "index_consistent s" by blast
  have dup: "\<forall>obj::SceneObject. name obj \<in> name ` set (m_Objects s) \<longrightarrow> fst (AddObject obj (s, lg')) = s"
  proof (intro allI impI)
    fix obj :: SceneObject assume "name obj \<in> name ` set (m_Objects s)"
    with c have "m_ObjectIndex s (name obj) \<noteq> None" by (auto simp: index_consistent_def)
    then show "fst (AddObject obj (s, lg')) = s" by (rule AddObject_duplicate)
  qed
  from r c dup remove_from_consistent [OF c, of _ lg'] show ?thesis by blast
qed

theorem scene_index_consistent_witness:
  "m_Objects (fst (Scene_new (Vector3 0 0 (- 1)) (Vector3 0 1 0) [])) = []
   \<and> m_ObjectIndex (fst (Scene_new (Vector3 0 0 (- 1)) (Vector3 0 1 0) [])) = Map.empty
   \<and> (\<exists>s lg'.
         run [Add \<lparr>name = ''A'', mesh = None,
                   transform = \<lparr>position = Vector3 0 0 0, rotation = qIdentity, scale = Vector3 1 1 1\<rparr>,
                   onUpdate = None\<rparr>,
              Add \<lparr>name = ''A'', mesh = None,
                   transform = \<lparr>position = Vector3 1 0 0, rotation = qIdentity, scale = Vector3 1 1 1\<rparr>,
                   onUpdate = None\<rparr>]
           (Scene_new (Vector3 0 0 (- 1)) (Vector3 0 1 0) []) = Inr (s, lg')
         \<and> length (m_Objects s) = 1 \<and> m_ObjectIndex s ''A'' = Some 0 \<and> index_consistent s)
   \<and> (\<exists>s lg'.
         run [Add \<lparr>name = ''A'', mesh = None,
                   transform = \<lparr>position = Vector3 0 0 0, rotation = qIdentity, scale = Vector3 1 1 1\<rparr>,
                   onUpdate = None\<rparr>,
              Remove ''A'',
              Add \<lparr>name = ''B'', mesh = None,
                   transform = \<lparr>position = Vector3 0 0 0, rotation = qIdentity, scale = Vector3 1 1 1\<rparr>,
                   onUpdate = None\<rparr>,
              Add \<lparr>name = ''C'', mesh = None,
                   transform = \<lparr>position = Vector3 0 0 0, rotation = qIdentity, scale = Vector3 1 1 1\<rparr>,
                   onUpdate = None\<rparr>,
              Remove ''B'']
           (Scene_new (Vector3 0 0 (- 1)) (Vector3 0 1 0) []) = Inr (s, lg')
         \<and> map name (m_Objects s) = [''C'']
         \<and> FindObject s ''A'' = Inr None \<and> FindObject s ''B'' = Inr None
         \<and> m_ObjectIndex s ''C'' = Some 0
         \<and> FindObject s ''C'' = Inr (Some \<lparr>name = ''C'', mesh = None,
                   transform = \<lparr>position = Vector3 0 0 0, rotation = qIdentity, scale = Vector3 1 1 1\<rparr>,
                   onUpdate = None\<rparr>)
         \<and> index_consistent s)"
proof -
  obtain s0 lg0 where n: "Scene_new (Vector3 0 0 (- 1)) (Vector3 0 1 0) [] = (s0, lg0)"
    by (cases "Scene_new (Vector3 0 0 (- 1)) (Vector3 0 1 0) []")
  then have e: "m_Objects s0 = []" "m_ObjectIndex s0 = Map.empty"
    by (auto simp: Scene_new_def split: prod.splits)
  let ?A = "\<lparr>name = ''A'', mesh = None,
                   transform = \<lparr>position = Vector3 0 0 0, rotation = qIdentity, scale = Vector3 1 1 1\<rparr>,
                   onUpdate = None\<rparr>"
  let ?A' = "\<lparr>name = ''A'', mesh = None,
                   transform = \<lparr>position = Vector3 1 0 0, rotation = qIdentity, scale = Vector3 1 1 1\<rparr>,
                   onUpdate = None\<rparr>"
  let ?B = "\<lparr>name = ''B'', mesh = None,
                   transform = \<lparr>position = Vector3 0 0 0, rotation = qIdentity, scale = Vector3 1 1 1\<rparr>,
                   onUpdate = None\<rparr>"
  let ?C = "\<lparr>name = ''C'', mesh = None,
                   transform = \<lparr>position = Vector3 0 0 0, rotation = qIdentity, scale = Vector3 1 1 1\<rparr>,
                   onUpdate = None\<rparr>"
  from scene_index_consistent [OF e, of "[Add ?A, Add ?A']" lg0]
  obtain s1 lg1 where r1: "run [Add ?A, Add ?A'] (s0, lg0) = Inr (s1, lg1)"
    and c1: "index_consistent s1" by blast
  from r1 e have p1: "length (m_Objects s1) = 1" "m_ObjectIndex s1 ''A'' = Some 0"
    by (auto simp: AddObject_def)
  from scene_index_consistent [OF e, of "[Add ?A, Remove ''A'', Add ?B, Add ?C, Remove ''B'']" lg0]
  obtain s2 lg2 where r2: "run [Add ?A, Remove ''A'', Add ?B, Add ?C, Remove ''B''] (s0, lg0) = Inr (s2, lg2)"
    and c2: "index_consistent s2" by blast
  from r2 e have p2: "map name (m_Objects s2) = [''C'']" "FindObject s2 ''A'' = Inr None"
    "FindObject s2 ''B'' = Inr None" "m_ObjectIndex s2 ''C'' = Some 0"
    "FindObject s2 ''C'' = Inr (Some ?C)"
    by (auto simp: AddObject_def RemoveObject_def erase_at_def FindObject_def)
  from n e r1 c1 p1 r2 c2 p2 show ?thesis by simp
qed

end
